theory Spec2Isabelle
  imports Main
begin

section \<open>Values exchanged with the host and with the bundling engine\<close>

text \<open>
  The development embeds \<^verbatim>\<open>src/mod.ts\<close>: the facade \<^verbatim>\<open>createWebpackAPI\<close>
  with its \<^verbatim>\<open>ssrLoadModule\<close>, the coordinator \<^verbatim>\<open>createManager\<close> with
  \<^verbatim>\<open>addEntry\<close> and \<^verbatim>\<open>waitForDone\<close>, and the class \<^verbatim>\<open>Deferred\<close>. The two
  \<^verbatim>\<open>close\<close> functions only hand the call over to the engine's \<^verbatim>\<open>watching.close\<close> and
  are left out.

  An error is a JavaScript \<^verbatim>\<open>Error\<close> object. \<open>Error msg\<close> is one that
  \<^verbatim>\<open>mod.ts\<close> builds itself with \<^verbatim>\<open>new Error(msg)\<close>; \<open>EngineError\<close> is one the
  engine hands to the watch callback; \<open>HostError\<close> is one thrown by the host's
  \<^verbatim>\<open>require\<close> or \<^verbatim>\<open>import()\<close>. The last two are carried around unchanged.
\<close>

datatype error = Error string | EngineError string | HostError string

text \<open>
  A loaded module is a namespace object of the host; the model keeps its reference, so
  that equality of two modules is reference equality.
\<close>

type_synonym module = nat

text \<open>
  What \<^verbatim>\<open>stats.toJson()\<close> yields, restricted to the three properties the code reads.
  \<^verbatim>\<open>hash\<close> and \<^verbatim>\<open>assetsByChunkName\<close> are optional; \<^verbatim>\<open>outputPath\<close> is read under
  the non-null assertion \<^verbatim>\<open>statsJson.outputPath!\<close> and is therefore a plain string here.
\<close>

record statsJson =
  hash :: "string option"
  outputPath :: string
  assetsByChunkName :: "(string \<rightharpoonup> string list) option"

record stats =
  hasErrors :: bool
  toString :: string
  toJson :: statsJson

text \<open>
  The facilities of the host that \<^verbatim>\<open>mod.ts\<close> calls and that are not part of the
  repository: \<^verbatim>\<open>path.resolve(...)\<close> (variadic, hence on a list), \<^verbatim>\<open>path.relative\<close>,
  \<^verbatim>\<open>__dirname\<close>, and the two module loaders. A loader takes the artifact path and the
  state \<open>'h\<close> of the host's module space, and returns the loaded module or the error it
  throws, with the new state of the host.
\<close>

record 'h host =
  path_resolve :: "string list \<Rightarrow> string"
  path_relative :: "string \<Rightarrow> string \<Rightarrow> string"
  dirname :: string
  host_require :: "string \<Rightarrow> 'h \<Rightarrow> (error + module) \<times> 'h"
  host_import :: "string \<Rightarrow> 'h \<Rightarrow> (error + module) \<times> 'h"

section \<open>Strings\<close>

text \<open>\<^verbatim>\<open>s.replace(/\\/g, "/")\<close>: every backslash (character 0x5C) becomes a slash.\<close>

definition replace_backslashes :: "string \<Rightarrow> string" where
  "replace_backslashes s = map (\<lambda>c. if c = CHR 0x5C then CHR ''/'' else c) s"

text \<open>\<^verbatim>\<open>s.startsWith(p)\<close> and \<^verbatim>\<open>s.includes(p)\<close>.\<close>

definition startsWith :: "string \<Rightarrow> string \<Rightarrow> bool" where
  "startsWith s p = (take (length p) s = p)"

fun includes_str :: "string \<Rightarrow> string \<Rightarrow> bool" where
  "includes_str [] p = (p = [])"
| "includes_str (c # s) p = (startsWith (c # s) p \<or> includes_str s p)"

section \<open>The build coordinator (\<^verbatim>\<open>createManager\<close>)\<close>

text \<open>
  The configuration of the compiler, restricted to what \<^verbatim>\<open>mod.ts\<close> reads and writes:
  \<^verbatim>\<open>options.context\<close>, \<^verbatim>\<open>options.output.library?.type\<close>, \<^verbatim>\<open>options.output.filename\<close>,
  \<^verbatim>\<open>options.output.chunkFilename\<close> and \<^verbatim>\<open>options.entry\<close>. A filename template is a
  string, a function, or absent; only the first has \<^verbatim>\<open>typeof\<close> \<^verbatim>\<open>"string"\<close>.
\<close>

datatype template = TemplateString string | TemplateFunction | TemplateUndefined

record options =
  options_context :: "string option"
  output_library_type :: "string option"
  output_filename :: template
  output_chunkFilename :: template
  options_entry :: "(string \<times> string) list"

text \<open>
  \<^verbatim>\<open>lastStatus\<close> is \<^verbatim>\<open>[stats]\<close> (\<open>Built\<close>) or \<^verbatim>\<open>[undefined, error]\<close> (\<open>Failed\<close>, the
  tuple of length 2), or \<^verbatim>\<open>null\<close> (\<open>None\<close>).
\<close>

datatype status = Built stats | Failed error

text \<open>
  A \<^verbatim>\<open>Deferred<Stats>\<close> is its promise: pending, resolved with a value or rejected
  with an error. \<^verbatim>\<open>resolve\<close> and \<^verbatim>\<open>reject\<close> are the two functions the \<^verbatim>\<open>Promise\<close>
  constructor hands out: the first call of either settles the promise, every later call
  leaves it as it is.
\<close>

datatype deferred = Pending | Resolved stats | Rejected error

definition resolve :: "stats \<Rightarrow> deferred \<Rightarrow> deferred" where
  "resolve v d = (case d of Pending \<Rightarrow> Resolved v | _ \<Rightarrow> d)"

definition reject :: "error \<Rightarrow> deferred \<Rightarrow> deferred" where
  "reject e d = (case d of Pending \<Rightarrow> Rejected e | _ \<Rightarrow> d)"

text \<open>
  \<^verbatim>\<open>!context\<close> holds of an optional string when it is \<^verbatim>\<open>undefined\<close> or the empty
  string; both cases are written out wherever the code tests a string for truthiness.

  The state a manager closes over. \<open>waiting\<close> is the array of deferreds, in the order
  they were pushed; an element is addressed by its index, which never changes because
  the code only ever pushes to the array. \<open>entries\<close> is the \<^verbatim>\<open>Set\<close> of entry
  filenames, in insertion order and without duplicates. \<open>signal_aborted\<close> is
  \<^verbatim>\<open>signal.aborted\<close>. The last two fields record what the manager asks of the engine:
  the \<^verbatim>\<open>EntryPlugin(context, relative, relative)\<close> it applies and the number of calls of
  \<^verbatim>\<open>watching.invalidate()\<close>.
\<close>

record manager =
  manager_context :: string
  waiting :: "deferred list"
  lastStatus :: "status option"
  running :: bool
  signal_aborted :: bool
  entries :: "string list"
  entry_plugins :: "(string \<times> string \<times> string) list"
  invalidate_calls :: nat

definition createManager :: "options \<Rightarrow> error + manager" where
  "createManager opts =
     (case options_context opts of
        None \<Rightarrow> Inl (Error ''context must be set in webpack config'')
      | Some ctxt \<Rightarrow>
          if ctxt = [] then Inl (Error ''context must be set in webpack config'')
          else Inr \<lparr> manager_context = ctxt,
                     waiting = [],
                     lastStatus = None,
                     running = False,
                     signal_aborted = False,
                     entries = [],
                     entry_plugins = [],
                     invalidate_calls = 0 \<rparr>)"

text \<open>
  The callback given to \<^verbatim>\<open>compiler.watch\<close> (lines 101 to 120), called by the engine with
  \<^verbatim>\<open>(err, stats)\<close> when a build has ended. It records the outcome, walks over the whole
  array \<open>waiting\<close> and calls \<^verbatim>\<open>reject\<close> or \<^verbatim>\<open>resolve\<close> on each element, and
  lowers \<open>running\<close> unless the signal is aborted. The array itself is not assigned.
  (The \<^verbatim>\<open>console.log\<close> of the rendered stats is not modelled.)
\<close>

definition record_status :: "error option \<Rightarrow> stats option \<Rightarrow> status" where
  "record_status err st =
     (case err of
        Some e \<Rightarrow> Failed e
      | None \<Rightarrow> (case st of
                   None \<Rightarrow> Failed (Error ''No stats from build'')
                 | Some s \<Rightarrow> Built s))"

definition settle :: "status \<Rightarrow> deferred \<Rightarrow> deferred" where
  "settle ls d = (case ls of Failed e \<Rightarrow> reject e d | Built s \<Rightarrow> resolve s d)"

definition watch_callback :: "error option \<Rightarrow> stats option \<Rightarrow> manager \<Rightarrow> manager" where
  "watch_callback err st m =
     (let ls = record_status err st
      in m \<lparr> lastStatus := Some ls,
             waiting := map (settle ls) (waiting m),
             running := (if \<not> signal_aborted m then False else running m) \<rparr>)"

text \<open>The taps on the hooks \<^verbatim>\<open>watchRun\<close>, \<^verbatim>\<open>invalid\<close> and \<^verbatim>\<open>done\<close> (lines 122 to 129).\<close>

definition runningCallback :: "manager \<Rightarrow> manager" where
  "runningCallback m = m \<lparr> running := True \<rparr>"

definition done_tap :: "manager \<Rightarrow> manager" where
  "done_tap m = m \<lparr> running := False \<rparr>"

text \<open>
  The identifier of an entry, as \<^verbatim>\<open>addEntry\<close> computes it (lines 138 to 140).
\<close>

definition addEntry_relative :: "'h host \<Rightarrow> string \<Rightarrow> string \<Rightarrow> string" where
  "addEntry_relative P ctxt filename =
     (let relative = replace_backslashes (path_relative P ctxt filename)
      in if \<not> startsWith relative ''./'' \<and> \<not> startsWith relative ''../''
         then ''./'' @ relative else relative)"

text \<open>\<^verbatim>\<open>Set.prototype.add\<close> on the insertion-ordered set.\<close>

definition set_add :: "string list \<Rightarrow> string \<Rightarrow> string list" where
  "set_add xs x = (if x \<in> set xs then xs else xs @ [x])"

definition addEntry :: "'h host \<Rightarrow> string \<Rightarrow> manager \<Rightarrow> manager" where
  "addEntry P filename m =
     (let size = length (entries m);
          m1 = m \<lparr> entries := set_add (entries m) filename \<rparr>
      in if length (entries m1) \<noteq> size
         then (let relative = addEntry_relative P (manager_context m1) filename
               in m1 \<lparr> entry_plugins :=
                          entry_plugins m1 @ [(manager_context m1, relative, relative)],
                        invalidate_calls := Suc (invalidate_calls m1) \<rparr>)
         else m1)"

text \<open>
  \<^verbatim>\<open>waitForDone\<close> (lines 155 to 164). The promise of the \<^verbatim>\<open>async\<close> function is
  fulfilled with the stats (\<open>Returned\<close>), rejected with the thrown error (\<open>Thrown\<close>),
  or follows the promise of the deferred just pushed (\<open>Awaiting i\<close>, with \<open>i\<close> the
  index of that deferred in \<open>waiting\<close>).
\<close>

datatype wait = Returned stats | Thrown error | Awaiting nat

definition waitForDone :: "manager \<Rightarrow> wait \<times> manager" where
  "waitForDone m =
     (if \<not> running m then
        (case lastStatus m of
           None \<Rightarrow> (Thrown (Error ''No build status available''), m)
         | Some (Failed e) \<Rightarrow> (Thrown e, m)
         | Some (Built s) \<Rightarrow> (Returned s, m))
      else (Awaiting (length (waiting m)), m \<lparr> waiting := waiting m @ [Pending] \<rparr>))"

text \<open>
  The events that reach a manager: the three hooks of the engine, the watch callback,
  and the two calls the facade makes. \<open>run\<close> applies a sequence of them in order.
\<close>

datatype event =
    WatchRun
  | Invalid
  | Done
  | Callback "error option" "stats option"
  | WaitForDone
  | AddEntry string

fun fire :: "'h host \<Rightarrow> event \<Rightarrow> manager \<Rightarrow> manager" where
  "fire P WatchRun m = runningCallback m"
| "fire P Invalid m = runningCallback m"
| "fire P Done m = done_tap m"
| "fire P (Callback err st) m = watch_callback err st m"
| "fire P WaitForDone m = snd (waitForDone m)"
| "fire P (AddEntry filename) m = addEntry P filename m"

definition run :: "'h host \<Rightarrow> event list \<Rightarrow> manager \<Rightarrow> manager" where
  "run P es m = foldl (\<lambda>s e. fire P e s) m es"

fun is_callback :: "event \<Rightarrow> bool" where
  "is_callback (Callback err st) = True"
| "is_callback e = False"

section \<open>The facade (\<^verbatim>\<open>createWebpackAPI\<close>)\<close>

text \<open>
  An entry of \<^verbatim>\<open>modCache\<close> is the object \<^verbatim>\<open>{ hash, mod }\<close>. An API closes over the
  context, the library type, the compiler whose options it has changed, its manager and
  the cache, a dictionary keyed by the artifact's path (an absolute path, as
  \<^verbatim>\<open>path.resolve\<close> returns it, so never a property inherited from \<^verbatim>\<open>Object.prototype\<close>).
\<close>

record cache_entry =
  entry_hash :: string
  entry_mod :: module

record api =
  api_context :: string
  libraryType :: string
  compiler_options :: options
  api_manager :: manager
  modCache :: "string \<rightharpoonup> cache_entry"

text \<open>
  The test of lines 20 to 25 on one template: it is a string and includes
  \<^verbatim>\<open>[contenthash]\<close>.
\<close>

definition has_contenthash :: "template \<Rightarrow> bool" where
  "has_contenthash t =
     (case t of TemplateString s \<Rightarrow> includes_str s ''[contenthash]'' | _ \<Rightarrow> False)"

definition createWebpackAPI :: "'h host \<Rightarrow> options \<Rightarrow> error + api" where
  "createWebpackAPI P opts =
     (case options_context opts of
        None \<Rightarrow> Inl (Error ''context must be set in webpack config'')
      | Some ctxt \<Rightarrow>
          if ctxt = [] then Inl (Error ''context must be set in webpack config'')
          else
            (case output_library_type opts of
               None \<Rightarrow> Inl (Error
                 ''output.library.type (or output.libraryTarget) must be set in webpack config'')
             | Some ty \<Rightarrow>
                 if ty = [] then Inl (Error
                   ''output.library.type (or output.libraryTarget) must be set in webpack config'')
                 else if \<not> has_contenthash (output_filename opts)
                         \<or> \<not> has_contenthash (output_chunkFilename opts)
                 then Inl (Error
                   ''output.filename and output.chunkFilename must contain [contenthash] in webpack config'')
                 else
                   (let opts1 = opts \<lparr> options_entry :=
                                  [(''__noop'', path_resolve P [dirname P, ''./noop.js''])] \<rparr>
                    in case createManager opts1 of
                         Inl e \<Rightarrow> Inl e
                       | Inr m \<Rightarrow> Inr \<lparr> api_context = ctxt,
                                          libraryType = ty,
                                          compiler_options = opts1,
                                          api_manager = m,
                                          modCache = Map.empty \<rparr>)))"

text \<open>The identifier that \<^verbatim>\<open>ssrLoadModule\<close> looks up (lines 52 to 54).\<close>

definition ssrLoadModule_relative :: "'h host \<Rightarrow> string \<Rightarrow> string \<Rightarrow> string" where
  "ssrLoadModule_relative P ctxt filename =
     (let relative = replace_backslashes (path_relative P ctxt filename)
      in if \<not> startsWith relative ''./'' \<and> \<not> startsWith relative ''../''
         then ''./'' @ relative else relative)"

text \<open>
  Line 55: \<^verbatim>\<open>statsJson.assetsByChunkName?.[relative]?.slice(-1)[0]\<close>, the last name of
  the list, \<^verbatim>\<open>undefined\<close> when the mapping, the key or the last element is missing.
\<close>

definition last_asset :: "statsJson \<Rightarrow> string \<Rightarrow> string option" where
  "last_asset sj relative =
     (case assetsByChunkName sj of
        None \<Rightarrow> None
      | Some assets \<Rightarrow>
          (case assets relative of
             None \<Rightarrow> None
           | Some names \<Rightarrow> if names = [] then None else Some (last names)))"

text \<open>
  Lines 57 and 58: a truthy name is resolved against the output path, and a falsy
  \<^verbatim>\<open>toLoad\<close> (\<^verbatim>\<open>undefined\<close> or the empty string, before or after) is the error.
\<close>

definition resolve_asset :: "'h host \<Rightarrow> statsJson \<Rightarrow> string \<Rightarrow> error + string" where
  "resolve_asset P sj relative =
     (case last_asset sj relative of
        None \<Rightarrow> Inl (Error (''No assets found for '' @ relative))
      | Some name \<Rightarrow>
          if name = [] then Inl (Error (''No assets found for '' @ relative))
          else (let toLoad = path_resolve P [outputPath sj, name]
                in if toLoad = [] then Inl (Error (''No assets found for '' @ relative))
                   else Inr toLoad))"

text \<open>
  Lines 60 to 77: the cache is consulted, and on a miss the artifact is loaded by the
  loader of the library type and stored. A loader that throws ends the call before the
  assignment to \<^verbatim>\<open>modCache[toLoad]\<close>. The result is the value returned or the error
  thrown, with the cache and the state of the host afterwards. (The \<^verbatim>\<open>await\<close> of
  \<^verbatim>\<open>import(toLoad)\<close> is a call that yields its outcome: one call is followed on its own.)
\<close>

definition load_with ::
  "(string \<Rightarrow> 'h \<Rightarrow> (error + module) \<times> 'h) \<Rightarrow> string \<Rightarrow> string \<Rightarrow>
   (string \<rightharpoonup> cache_entry) \<Rightarrow> 'h \<Rightarrow> (error + module) \<times> (string \<rightharpoonup> cache_entry) \<times> 'h" where
  "load_with loader toLoad h cache hs =
     (case loader toLoad hs of
        (Inl e, hs1) \<Rightarrow> (Inl e, cache, hs1)
      | (Inr md, hs1) \<Rightarrow>
          (Inr md, cache(toLoad \<mapsto> \<lparr> entry_hash = h, entry_mod = md \<rparr>), hs1))"

definition cache_hit :: "(string \<rightharpoonup> cache_entry) \<Rightarrow> string \<Rightarrow> string \<Rightarrow> module option" where
  "cache_hit cache toLoad h =
     (case cache toLoad of
        None \<Rightarrow> None
      | Some cached \<Rightarrow> if entry_hash cached = h then Some (entry_mod cached) else None)"

definition load_module ::
  "'h host \<Rightarrow> string \<Rightarrow> string \<Rightarrow> string \<Rightarrow>
   (string \<rightharpoonup> cache_entry) \<Rightarrow> 'h \<Rightarrow> (error + module) \<times> (string \<rightharpoonup> cache_entry) \<times> 'h" where
  "load_module P ty toLoad h cache hs =
     (case cache_hit cache toLoad h of
        Some md \<Rightarrow> (Inr md, cache, hs)
      | None \<Rightarrow>
          if ty = ''commonjs'' then load_with (host_require P) toLoad h cache hs
          else if ty = ''module'' then load_with (host_import P) toLoad h cache hs
          else (Inl (Error (''Unsupported library type: '' @ ty)), cache, hs))"

text \<open>
  \<^verbatim>\<open>ssrLoadModule\<close> up to its first \<^verbatim>\<open>await\<close> (lines 46 and 47): the entry is added
  under its resolved path and the wait is started.
\<close>

definition ssrLoadModule_start :: "'h host \<Rightarrow> string \<Rightarrow> api \<Rightarrow> wait \<times> api" where
  "ssrLoadModule_start P filename a =
     (let m1 = addEntry P (path_resolve P [filename]) (api_manager a);
          (w, m2) = waitForDone m1
      in (w, a \<lparr> api_manager := m2 \<rparr>))"

text \<open>
  \<^verbatim>\<open>ssrLoadModule\<close> from the point where the wait has ended, with the error it was
  rejected with or the stats it was fulfilled with (lines 47 to 77).
\<close>

definition ssrLoadModule_finish ::
  "'h host \<Rightarrow> string \<Rightarrow> error + stats \<Rightarrow> api \<Rightarrow> 'h \<Rightarrow> (error + module) \<times> api \<times> 'h" where
  "ssrLoadModule_finish P filename awaited a hs =
     (case awaited of
        Inl e \<Rightarrow> (Inl e, a, hs)
      | Inr st \<Rightarrow>
          if hasErrors st then (Inl (Error (toString st)), a, hs)
          else
            (let sj = toJson st
             in case hash sj of
                  None \<Rightarrow> (Inl (Error ''No hash found in stats''), a, hs)
                | Some h \<Rightarrow>
                    if h = [] then (Inl (Error ''No hash found in stats''), a, hs)
                    else
                      (let relative = ssrLoadModule_relative P (api_context a) filename
                       in case resolve_asset P sj relative of
                            Inl e \<Rightarrow> (Inl e, a, hs)
                          | Inr toLoad \<Rightarrow>
                              (case load_module P (libraryType a) toLoad h (modCache a) hs of
                                 (r, cache1, hs1) \<Rightarrow> (r, a \<lparr> modCache := cache1 \<rparr>, hs1)))))"

text \<open>
  What a caller that awaits the result of \<open>waitForDone\<close> receives once it is there:
  nothing yet (\<open>None\<close>) while the deferred it follows is pending.
\<close>

fun awaited_outcome :: "wait \<Rightarrow> manager \<Rightarrow> (error + stats) option" where
  "awaited_outcome (Returned s) m = Some (Inr s)"
| "awaited_outcome (Thrown e) m = Some (Inl e)"
| "awaited_outcome (Awaiting i) m =
     (if i < length (waiting m)
      then (case waiting m ! i of
              Pending \<Rightarrow> None
            | Resolved s \<Rightarrow> Some (Inr s)
            | Rejected e \<Rightarrow> Some (Inl e))
      else None)"

section \<open>A small project, for the closed examples\<close>

text \<open>
  A stand-in for the host, used only where a statement is evaluated on concrete data.
  Paths are resolved against the working directory \<^verbatim>\<open>/proj\<close> (from right to left, an
  absolute argument ends the search), a path below the \<^verbatim>\<open>from\<close> directory is made
  relative by dropping that prefix, and the state of the host counts the loads it has
  been asked for: every successful load yields a module with a new reference, and the
  artifact \<^verbatim>\<open>/proj/dist/broken.cjs\<close> cannot be loaded.
\<close>

fun resolve_from :: "string \<Rightarrow> string list \<Rightarrow> string" where
  "resolve_from base [] = base"
| "resolve_from base (p # ps) =
     resolve_from (if p = [] then base
                   else if hd p = CHR ''/'' then p
                   else base @ ''/'' @ p) ps"

definition example_relative :: "string \<Rightarrow> string \<Rightarrow> string" where
  "example_relative frm to =
     (let f = resolve_from ''/proj'' [frm]; t = resolve_from ''/proj'' [to]
      in if f = t then []
         else if startsWith t (f @ ''/'') then drop (Suc (length f)) t
         else t)"

definition example_loader :: "string \<Rightarrow> nat \<Rightarrow> (error + module) \<times> nat" where
  "example_loader p hs =
     (if p = ''/proj/dist/broken.cjs'' then (Inl (HostError ''Cannot find module''), Suc hs)
      else (Inr hs, Suc hs))"

definition example_host :: "nat host" where
  "example_host =
     \<lparr> path_resolve = resolve_from ''/proj'',
       path_relative = example_relative,
       dirname = ''/proj/node_modules/api'',
       host_require = example_loader,
       host_import = example_loader \<rparr>"

definition example_options :: "string \<Rightarrow> options" where
  "example_options ty =
     \<lparr> options_context = Some ''/proj'',
       output_library_type = Some ty,
       output_filename = TemplateString ''[name].[contenthash].cjs'',
       output_chunkFilename = TemplateString ''[name].[contenthash].cjs'',
       options_entry = [] \<rparr>"

definition example_manager :: manager where
  "example_manager =
     \<lparr> manager_context = ''/proj'',
       waiting = [],
       lastStatus = None,
       running = False,
       signal_aborted = False,
       entries = [],
       entry_plugins = [],
       invalidate_calls = 0 \<rparr>"

definition example_api :: "string \<Rightarrow> api" where
  "example_api ty =
     \<lparr> api_context = ''/proj'',
       libraryType = ty,
       compiler_options = (example_options ty)
         \<lparr> options_entry := [(''__noop'', ''/proj/node_modules/api/./noop.js'')] \<rparr>,
       api_manager = example_manager,
       modCache = Map.empty \<rparr>"

definition example_stats :: "string \<Rightarrow> string list \<Rightarrow> stats" where
  "example_stats h names =
     \<lparr> hasErrors = False,
       toString = ''compiled successfully'',
       toJson = \<lparr> hash = Some h,
                  outputPath = ''/proj/dist'',
                  assetsByChunkName = Some [''./src/a.ts'' \<mapsto> names] \<rparr> \<rparr>"

definition failed_stats :: stats where
  "failed_stats =
     \<lparr> hasErrors = True,
       toString = ''ERROR in ./src/a.ts: Unexpected token'',
       toJson = \<lparr> hash = Some ''f00d'',
                  outputPath = ''/proj/dist'',
                  assetsByChunkName = None \<rparr> \<rparr>"

section \<open>Properties\<close>

subsection \<open>Strings\<close>

lemma startsWith_iff: "startsWith s p \<longleftrightarrow> (\<exists>b. s = p @ b)"
  unfolding startsWith_def
  by (metis append_eq_conv_conj append_take_drop_id)

lemma includes_str_iff: "includes_str s p \<longleftrightarrow> (\<exists>a b. s = a @ p @ b)"
proof (induction s)
  case Nil
  then show ?case by auto
next
  case (Cons c s)
  show ?case
  proof
    assume "includes_str (c # s) p"
    then consider "startsWith (c # s) p" | "includes_str s p" by auto
    then show "\<exists>a b. c # s = a @ p @ b"
    proof cases
      case 1
      then obtain b where "c # s = p @ b" by (auto simp: startsWith_iff)
      then have "c # s = [] @ p @ b" by simp
      then show ?thesis by blast
    next
      case 2
      then obtain a b where "s = a @ p @ b" using Cons.IH by auto
      then have "c # s = (c # a) @ p @ b" by simp
      then show ?thesis by blast
    qed
  next
    assume "\<exists>a b. c # s = a @ p @ b"
    then obtain a b where ab: "c # s = a @ p @ b" by blast
    show "includes_str (c # s) p"
    proof (cases a)
      case Nil
      then have "startsWith (c # s) p" using ab by (auto simp: startsWith_iff)
      then show ?thesis by simp
    next
      case (Cons x a')
      then have "s = a' @ p @ b" using ab by simp
      then have "includes_str s p" using Cons.IH by blast
      then show ?thesis by simp
    qed
  qed
qed

subsection \<open>Waiting for a build that is not running\<close>

text \<open>
  C5. A call of \<open>waitForDone\<close> while \<open>running\<close> is false pushes no deferred and
  leaves the manager as it is. With a recorded success it returns the recorded stats,
  with a recorded failure it throws the recorded error, and with no recorded status it
  throws the error \<^verbatim>\<open>No build status available\<close>.
\<close>

theorem waitForDone_not_running:
  assumes "\<not> running m"
  shows "(\<forall>s. lastStatus m = Some (Built s) \<longrightarrow> waitForDone m = (Returned s, m))
       \<and> (\<forall>e. lastStatus m = Some (Failed e) \<longrightarrow> waitForDone m = (Thrown e, m))
       \<and> (lastStatus m = None \<longrightarrow>
            waitForDone m = (Thrown (Error ''No build status available''), m))
       \<and> waiting (snd (waitForDone m)) = waiting m"
  using assms by (simp add: waitForDone_def split: option.splits status.splits)

theorem waitForDone_not_running_witness:
  "waitForDone (watch_callback None (Some (example_stats ''abc'' [''a.abc.cjs''])) example_manager)
     = (Returned (example_stats ''abc'' [''a.abc.cjs'']), watch_callback None (Some (example_stats ''abc'' [''a.abc.cjs''])) example_manager)
   \<and> waitForDone (watch_callback (Some (EngineError ''watch failed'')) None example_manager)
     = (Thrown (EngineError ''watch failed''),
        watch_callback (Some (EngineError ''watch failed'')) None example_manager)
   \<and> waitForDone example_manager
     = (Thrown (Error ''No build status available''), example_manager)"
proof -
  let ?m1 = "watch_callback None (Some (example_stats ''abc'' [''a.abc.cjs''])) example_manager"
  let ?m2 = "watch_callback (Some (EngineError ''watch failed'')) None example_manager"
  have r1: "\<not> running ?m1" and r2: "\<not> running ?m2" and r3: "\<not> running example_manager"
    by (simp_all add: watch_callback_def example_manager_def Let_def)
  have s1: "lastStatus ?m1 = Some (Built (example_stats ''abc'' [''a.abc.cjs'']))"
    by (simp add: watch_callback_def record_status_def Let_def)
  have s2: "lastStatus ?m2 = Some (Failed (EngineError ''watch failed''))"
    by (simp add: watch_callback_def record_status_def Let_def)
  have s3: "lastStatus example_manager = None"
    by (simp add: example_manager_def)
  from waitForDone_not_running [OF r1] s1
  have "waitForDone ?m1 = (Returned (example_stats ''abc'' [''a.abc.cjs'']), ?m1)" by blast
  moreover from waitForDone_not_running [OF r2] s2
  have "waitForDone ?m2 = (Thrown (EngineError ''watch failed''), ?m2)" by blast
  moreover from waitForDone_not_running [OF r3] s3
  have "waitForDone example_manager
          = (Thrown (Error ''No build status available''), example_manager)" by blast
  ultimately show ?thesis by blast
qed

subsection \<open>Adding an entry\<close>

text \<open>
  C3. \<open>addEntry\<close> with a filename that is already an entry changes nothing: no
  plugin is applied and \<^verbatim>\<open>invalidate\<close> is not called. With a new filename it adds the
  entry, applies exactly one \<^verbatim>\<open>EntryPlugin\<close> and calls \<^verbatim>\<open>invalidate\<close> exactly once.
  Adding the same filename twice is the same as adding it once, so it costs at most one
  registration and at most one invalidation.
\<close>

theorem addEntry_idempotent:
  "(filename \<in> set (entries m) \<longrightarrow> addEntry P filename m = m)
 \<and> (filename \<notin> set (entries m) \<longrightarrow>
      addEntry P filename m =
        m \<lparr> entries := entries m @ [filename],
            entry_plugins := entry_plugins m @
              [(manager_context m,
                addEntry_relative P (manager_context m) filename,
                addEntry_relative P (manager_context m) filename)],
            invalidate_calls := Suc (invalidate_calls m) \<rparr>)
 \<and> addEntry P filename (addEntry P filename m) = addEntry P filename m
 \<and> length (entry_plugins (addEntry P filename (addEntry P filename m)))
      \<le> Suc (length (entry_plugins m))
 \<and> invalidate_calls (addEntry P filename (addEntry P filename m))
      \<le> Suc (invalidate_calls m)"
proof -
  have old: "addEntry P f k = k" if "f \<in> set (entries k)" for f k
    using that by (simp add: addEntry_def set_add_def Let_def)
  have new: "addEntry P f k =
        k \<lparr> entries := entries k @ [f],
            entry_plugins := entry_plugins k @
              [(manager_context k,
                addEntry_relative P (manager_context k) f,
                addEntry_relative P (manager_context k) f)],
            invalidate_calls := Suc (invalidate_calls k) \<rparr>" if "f \<notin> set (entries k)" for f k
    using that by (simp add: addEntry_def set_add_def Let_def)
  have mem: "filename \<in> set (entries (addEntry P filename m))"
    by (cases "filename \<in> set (entries m)") (simp_all add: old new)
  have twice: "addEntry P filename (addEntry P filename m) = addEntry P filename m"
    using mem by (rule old)
  have "length (entry_plugins (addEntry P filename m)) \<le> Suc (length (entry_plugins m))"
    by (cases "filename \<in> set (entries m)") (simp_all add: old new)
  moreover have "invalidate_calls (addEntry P filename m) \<le> Suc (invalidate_calls m)"
    by (cases "filename \<in> set (entries m)") (simp_all add: old new)
  ultimately show ?thesis using old new twice by simp
qed

theorem addEntry_idempotent_witness:
  "entry_plugins (addEntry example_host ''/proj/src/a.ts'' example_manager)
     = [(''/proj'', ''./src/a.ts'', ''./src/a.ts'')]
 \<and> invalidate_calls (addEntry example_host ''/proj/src/a.ts'' example_manager) = 1
 \<and> addEntry example_host ''/proj/src/a.ts''
       (addEntry example_host ''/proj/src/a.ts'' example_manager)
     = addEntry example_host ''/proj/src/a.ts'' example_manager"
proof -
  have n: "''/proj/src/a.ts'' \<notin> set (entries example_manager)"
    by (simp add: example_manager_def)
  have k: "addEntry_relative example_host ''/proj'' ''/proj/src/a.ts''
             = ''./src/a.ts''"
    by (simp add: addEntry_relative_def example_host_def example_relative_def
        replace_backslashes_def startsWith_def Let_def)
  have c: "manager_context example_manager = ''/proj''"
   and p: "entry_plugins example_manager = []"
   and i: "invalidate_calls example_manager = 0"
    by (simp_all add: example_manager_def)
  from addEntry_idempotent [of "''/proj/src/a.ts''" example_manager example_host] n
  have "addEntry example_host ''/proj/src/a.ts'' example_manager =
        example_manager \<lparr> entries := entries example_manager @ [''/proj/src/a.ts''],
            entry_plugins := entry_plugins example_manager @
              [(manager_context example_manager,
                addEntry_relative example_host (manager_context example_manager) ''/proj/src/a.ts'',
                addEntry_relative example_host (manager_context example_manager) ''/proj/src/a.ts'')],
            invalidate_calls := Suc (invalidate_calls example_manager) \<rparr>"
    and "addEntry example_host ''/proj/src/a.ts''
       (addEntry example_host ''/proj/src/a.ts'' example_manager)
     = addEntry example_host ''/proj/src/a.ts'' example_manager"
    by blast+
  then show ?thesis by (simp add: k c p i)
qed

subsection \<open>Construction of the API\<close>

lemma has_contenthash_iff:
  "has_contenthash t \<longleftrightarrow> (\<exists>a b. t = TemplateString (a @ ''[contenthash]'' @ b))"
  by (cases t) (auto simp: has_contenthash_def includes_str_iff)

lemma createManager_ok:
  "ctxt \<noteq> [] \<Longrightarrow> \<exists>m. createManager (opts \<lparr> options_context := Some ctxt, options_entry := e \<rparr>) = Inr m
     \<and> manager_context m = ctxt"
  by (simp add: createManager_def)

text \<open>
  C7. \<open>createWebpackAPI\<close> returns an error exactly when the context is absent or
  empty, or the library type is absent or empty, or the filename template or the
  chunk-filename template is not a string in which \<^verbatim>\<open>[contenthash]\<close> occurs. In every
  other case it returns an API.
\<close>

theorem createWebpackAPI_throws_iff:
  "isl (createWebpackAPI P opts) \<longleftrightarrow>
     options_context opts = None \<or> options_context opts = Some []
   \<or> output_library_type opts = None \<or> output_library_type opts = Some []
   \<or> (\<nexists>a b. output_filename opts = TemplateString (a @ ''[contenthash]'' @ b))
   \<or> (\<nexists>a b. output_chunkFilename opts = TemplateString (a @ ''[contenthash]'' @ b))"
  unfolding has_contenthash_iff [symmetric]
  by (auto simp: createWebpackAPI_def createManager_def Let_def split: option.splits)

theorem createWebpackAPI_throws_iff_witness:
  "\<not> isl (createWebpackAPI example_host (example_options ''commonjs''))
 \<and> isl (createWebpackAPI example_host
          ((example_options ''commonjs'') \<lparr> output_filename := TemplateString ''[name].js'' \<rparr>))"
proof -
  have f: "has_contenthash (TemplateString ''[name].[contenthash].cjs'')"
    by (simp add: has_contenthash_def startsWith_def)
  have g: "\<not> has_contenthash (TemplateString ''[name].js'')"
    by (simp add: has_contenthash_def startsWith_def)
  show ?thesis
    using createWebpackAPI_throws_iff [of example_host "example_options ''commonjs''"]
      createWebpackAPI_throws_iff [of example_host
          "(example_options ''commonjs'') \<lparr> output_filename := TemplateString ''[name].js'' \<rparr>"]
      f g
    unfolding has_contenthash_iff
    by (simp add: example_options_def)
qed

subsection \<open>Facts about the small project\<close>

lemma example_host_fields:
  "path_resolve example_host = resolve_from ''/proj''"
  "path_relative example_host = example_relative"
  "dirname example_host = ''/proj/node_modules/api''"
  "host_require example_host = example_loader"
  "host_import example_host = example_loader"
  by (simp_all add: example_host_def)

lemma example_relative_a: "example_relative ''/proj'' ''/proj/src/a.ts'' = ''src/a.ts''"
  by (simp add: example_relative_def startsWith_def)

lemma example_keys:
  "ssrLoadModule_relative example_host ''/proj'' ''/proj/src/a.ts'' = ''./src/a.ts''"
  "addEntry_relative example_host ''/proj'' ''/proj/src/a.ts'' = ''./src/a.ts''"
  by (simp_all add: ssrLoadModule_relative_def addEntry_relative_def example_host_fields
      example_relative_a replace_backslashes_def startsWith_def)

lemma example_api_fields:
  "api_context (example_api ty) = ''/proj''"
  "libraryType (example_api ty) = ty"
  "modCache (example_api ty) = Map.empty"
  "api_manager (example_api ty) = example_manager"
  by (simp_all add: example_api_def)

lemma example_stats_fields:
  "\<not> hasErrors (example_stats h names)"
  "hash (toJson (example_stats h names)) = Some h"
  "outputPath (toJson (example_stats h names)) = ''/proj/dist''"
  "assetsByChunkName (toJson (example_stats h names)) = Some [''./src/a.ts'' \<mapsto> names]"
  by (simp_all add: example_stats_def)

lemma example_resolve_asset:
  "resolve_asset example_host (toJson (example_stats h [''a.abc.cjs''])) ''./src/a.ts''
     = Inr ''/proj/dist/a.abc.cjs''"
  by (simp add: resolve_asset_def last_asset_def example_stats_fields example_host_fields)

subsection \<open>An unsupported library type\<close>

text \<open>
  C6, as stated, fails: with the library type \<^verbatim>\<open>umd\<close>, which is neither \<^verbatim>\<open>commonjs\<close>
  nor \<^verbatim>\<open>module\<close>, and an otherwise valid configuration, construction returns an API.
\<close>

theorem unsupported_type_constructs_counterexample:
  "output_library_type (example_options ''umd'') = Some ''umd''
 \<and> createWebpackAPI example_host (example_options ''umd'') = Inr (example_api ''umd'')"
  by (simp add: createWebpackAPI_def createManager_def example_options_def example_api_def
      example_manager_def example_host_def has_contenthash_def startsWith_def Let_def)

text \<open>
  C6, amended. Construction rejects a library type only when it is absent or empty. With
  any other type that is neither \<^verbatim>\<open>commonjs\<close> nor \<^verbatim>\<open>module\<close> and an otherwise valid
  configuration, construction returns an API of that type, and the error
  \<^verbatim>\<open>Unsupported library type\<close> is raised by \<open>ssrLoadModule\<close>: after a build without
  errors and with a hash, once the artifact is resolved and the cache has no entry of
  that hash for it. The cache and the host are left as they were, and neither loader is
  called.
\<close>

theorem unsupported_type_raised_at_load:
  assumes "options_context opts = Some ctxt" and "ctxt \<noteq> []"
      and "output_library_type opts = Some ty" and "ty \<noteq> []"
      and "ty \<noteq> ''commonjs''" and "ty \<noteq> ''module''"
      and "has_contenthash (output_filename opts)"
      and "has_contenthash (output_chunkFilename opts)"
  shows "\<exists>a. createWebpackAPI P opts = Inr a \<and> libraryType a = ty \<and> modCache a = Map.empty
         \<and> (\<forall>filename st h toLoad b hs.
               libraryType b = ty \<and> \<not> hasErrors st \<and> hash (toJson st) = Some h \<and> h \<noteq> []
               \<and> resolve_asset P (toJson st) (ssrLoadModule_relative P (api_context b) filename)
                   = Inr toLoad
               \<and> cache_hit (modCache b) toLoad h = None
               \<longrightarrow> ssrLoadModule_finish P filename (Inr st) b hs
                     = (Inl (Error (''Unsupported library type: '' @ ty)), b, hs))"
proof -
  obtain a where a: "createWebpackAPI P opts = Inr a" "libraryType a = ty" "modCache a = Map.empty"
    using assms by (simp add: createWebpackAPI_def createManager_def Let_def)
  have "ssrLoadModule_finish P filename (Inr st) b hs
          = (Inl (Error (''Unsupported library type: '' @ ty)), b, hs)"
    if "libraryType b = ty" "\<not> hasErrors st" "hash (toJson st) = Some h" "h \<noteq> []"
       "resolve_asset P (toJson st) (ssrLoadModule_relative P (api_context b) filename) = Inr toLoad"
       "cache_hit (modCache b) toLoad h = None"
    for filename st h toLoad b hs
    using that assms(5,6) by (simp add: ssrLoadModule_finish_def load_module_def Let_def)
  with a show ?thesis by blast
qed

theorem unsupported_type_raised_at_load_witness:
  "ssrLoadModule_finish example_host ''/proj/src/a.ts''
      (Inr (example_stats ''abc'' [''a.abc.cjs''])) (example_api ''umd'') 0
     = (Inl (Error ''Unsupported library type: umd''), example_api ''umd'', 0)"
proof -
  have o: "options_context (example_options ''umd'') = Some ''/proj''"
          "output_library_type (example_options ''umd'') = Some ''umd''"
          "has_contenthash (output_filename (example_options ''umd''))"
          "has_contenthash (output_chunkFilename (example_options ''umd''))"
    by (simp_all add: example_options_def has_contenthash_def startsWith_def)
  have r: "resolve_asset example_host (toJson (example_stats ''abc'' [''a.abc.cjs'']))
             (ssrLoadModule_relative example_host (api_context (example_api ''umd''))
                ''/proj/src/a.ts'')
           = Inr ''/proj/dist/a.abc.cjs''"
    by (simp add: example_api_fields example_keys example_resolve_asset)
  have s: "libraryType (example_api ''umd'') = ''umd''"
          "\<not> hasErrors (example_stats ''abc'' [''a.abc.cjs''])"
          "hash (toJson (example_stats ''abc'' [''a.abc.cjs''])) = Some ''abc''"
          "cache_hit (modCache (example_api ''umd'')) ''/proj/dist/a.abc.cjs'' ''abc'' = None"
    by (simp_all add: example_api_fields example_stats_fields cache_hit_def)
  from unsupported_type_raised_at_load [of "example_options ''umd''" "''/proj''" "''umd''" example_host]
    o
  have "\<forall>filename st h toLoad b hs.
               libraryType b = ''umd'' \<and> \<not> hasErrors st \<and> hash (toJson st) = Some h \<and> h \<noteq> []
               \<and> resolve_asset example_host (toJson st)
                    (ssrLoadModule_relative example_host (api_context b) filename)
                   = Inr toLoad
               \<and> cache_hit (modCache b) toLoad h = None
               \<longrightarrow> ssrLoadModule_finish example_host filename (Inr st) b hs
                     = (Inl (Error (''Unsupported library type: '' @ ''umd'')), b, hs)"
    by auto
  from this [rule_format, of "example_api ''umd''" "example_stats ''abc'' [''a.abc.cjs'']"
      "''abc''" "''/proj/src/a.ts''" "''/proj/dist/a.abc.cjs''" 0] r s
  show ?thesis by simp
qed

subsection \<open>After the wait: build errors and the hash\<close>

text \<open>
  C8. Once the awaited stats are there: if they report errors, \<open>ssrLoadModule\<close>
  throws one error whose message is the rendering \<^verbatim>\<open>stats.toString()\<close>; otherwise, if
  the hash is absent (or empty), it throws the error \<^verbatim>\<open>No hash found in stats\<close>. In
  both cases the API and the host are untouched. With no errors and a hash, the call goes
  on to resolve the artifact and to load it; and a call that returns a module has had
  stats without errors and with a hash.
\<close>

theorem ssrLoadModule_build_outcome:
  "(hasErrors st \<longrightarrow>
      ssrLoadModule_finish P filename (Inr st) a hs = (Inl (Error (toString st)), a, hs))
 \<and> (\<not> hasErrors st \<and> (hash (toJson st) = None \<or> hash (toJson st) = Some []) \<longrightarrow>
      ssrLoadModule_finish P filename (Inr st) a hs
        = (Inl (Error ''No hash found in stats''), a, hs))
 \<and> (\<forall>h. \<not> hasErrors st \<and> hash (toJson st) = Some h \<and> h \<noteq> [] \<longrightarrow>
      ssrLoadModule_finish P filename (Inr st) a hs
        = (case resolve_asset P (toJson st)
                  (ssrLoadModule_relative P (api_context a) filename) of
             Inl e \<Rightarrow> (Inl e, a, hs)
           | Inr toLoad \<Rightarrow>
               (case load_module P (libraryType a) toLoad h (modCache a) hs of
                  (r, cache1, hs1) \<Rightarrow> (r, a \<lparr> modCache := cache1 \<rparr>, hs1))))
 \<and> (\<forall>md a1 hs1. ssrLoadModule_finish P filename (Inr st) a hs = (Inr md, a1, hs1) \<longrightarrow>
      \<not> hasErrors st \<and> (\<exists>h. hash (toJson st) = Some h \<and> h \<noteq> []))"
proof (intro conjI allI impI)
  assume "hasErrors st"
  then show "ssrLoadModule_finish P filename (Inr st) a hs = (Inl (Error (toString st)), a, hs)"
    by (simp add: ssrLoadModule_finish_def)
next
  assume "\<not> hasErrors st \<and> (hash (toJson st) = None \<or> hash (toJson st) = Some [])"
  then show "ssrLoadModule_finish P filename (Inr st) a hs
               = (Inl (Error ''No hash found in stats''), a, hs)"
    by (auto simp: ssrLoadModule_finish_def Let_def)
next
  fix h
  assume "\<not> hasErrors st \<and> hash (toJson st) = Some h \<and> h \<noteq> []"
  then show "ssrLoadModule_finish P filename (Inr st) a hs
        = (case resolve_asset P (toJson st)
                  (ssrLoadModule_relative P (api_context a) filename) of
             Inl e \<Rightarrow> (Inl e, a, hs)
           | Inr toLoad \<Rightarrow>
               (case load_module P (libraryType a) toLoad h (modCache a) hs of
                  (r, cache1, hs1) \<Rightarrow> (r, a \<lparr> modCache := cache1 \<rparr>, hs1)))"
    by (simp add: ssrLoadModule_finish_def Let_def)
next
  fix md a1 hs1
  assume R: "ssrLoadModule_finish P filename (Inr st) a hs = (Inr md, a1, hs1)"
  show "\<not> hasErrors st"
  proof
    assume "hasErrors st"
    then have "ssrLoadModule_finish P filename (Inr st) a hs
                 = (Inl (Error (toString st)), a, hs)"
      by (simp add: ssrLoadModule_finish_def)
    with R show False by simp
  qed
  then show "\<exists>h. hash (toJson st) = Some h \<and> h \<noteq> []"
    using R by (cases "hash (toJson st)") (auto simp: ssrLoadModule_finish_def Let_def
        split: if_splits)
qed

theorem ssrLoadModule_build_outcome_witness:
  "ssrLoadModule_finish example_host ''/proj/src/a.ts'' (Inr failed_stats)
      (example_api ''commonjs'') 0
     = (Inl (Error ''ERROR in ./src/a.ts: Unexpected token''), example_api ''commonjs'', 0)
 \<and> ssrLoadModule_finish example_host ''/proj/src/a.ts''
      (Inr ((example_stats ''abc'' [''a.abc.cjs'']) \<lparr> toJson :=
          toJson (example_stats ''abc'' [''a.abc.cjs'']) \<lparr> hash := None \<rparr> \<rparr>))
      (example_api ''commonjs'') 0
     = (Inl (Error ''No hash found in stats''), example_api ''commonjs'', 0)"
proof -
  let ?nohash = "(example_stats ''abc'' [''a.abc.cjs'']) \<lparr> toJson :=
          toJson (example_stats ''abc'' [''a.abc.cjs'']) \<lparr> hash := None \<rparr> \<rparr>"
  have f: "hasErrors failed_stats"
          "toString failed_stats = ''ERROR in ./src/a.ts: Unexpected token''"
    by (simp_all add: failed_stats_def)
  have n: "\<not> hasErrors ?nohash" "hash (toJson ?nohash) = None"
    by (simp_all add: example_stats_def)
  from ssrLoadModule_build_outcome
         [of failed_stats example_host "''/proj/src/a.ts''" "example_api ''commonjs''" 0] f
  have "ssrLoadModule_finish example_host ''/proj/src/a.ts'' (Inr failed_stats)
      (example_api ''commonjs'') 0
     = (Inl (Error ''ERROR in ./src/a.ts: Unexpected token''), example_api ''commonjs'', 0)"
    by simp
  moreover
  from ssrLoadModule_build_outcome
         [of ?nohash example_host "''/proj/src/a.ts''" "example_api ''commonjs''" 0] n
  have "ssrLoadModule_finish example_host ''/proj/src/a.ts'' (Inr ?nohash)
      (example_api ''commonjs'') 0
     = (Inl (Error ''No hash found in stats''), example_api ''commonjs'', 0)"
    by simp
  ultimately show ?thesis by simp
qed

subsection \<open>Resolving the artifact\<close>

text \<open>
  The identifier that \<open>ssrLoadModule\<close> looks up, written out: the result of
  \<^verbatim>\<open>path.relative(context, filename)\<close> with every backslash turned into a slash, and
  with \<^verbatim>\<open>./\<close> put in front unless it already starts with \<^verbatim>\<open>./\<close> or \<^verbatim>\<open>../\<close>.
\<close>

lemma startsWith_dots:
  "startsWith s ''./'' \<longleftrightarrow> take 2 s = ''./''"
  "startsWith s ''../'' \<longleftrightarrow> take 3 s = ''../''"
  by (simp_all add: startsWith_def eval_nat_numeral)

lemma ssrLoadModule_relative_eq:
  "ssrLoadModule_relative P ctxt filename =
     (let r = map (\<lambda>c. if c = CHR 0x5C then CHR ''/'' else c) (path_relative P ctxt filename)
      in if take 2 r = ''./'' \<or> take 3 r = ''../'' then r else ''./'' @ r)"
  by (simp add: ssrLoadModule_relative_def replace_backslashes_def startsWith_dots Let_def
      del: take_map)

lemma relative_convention:
  "take 2 (ssrLoadModule_relative P ctxt filename) = ''./''
   \<or> take 3 (ssrLoadModule_relative P ctxt filename) = ''../''"
  by (simp add: ssrLoadModule_relative_def Let_def startsWith_dots)

lemma resolve_asset_found:
  assumes "assetsByChunkName sj = Some assets" and "assets relative = Some names"
      and "names \<noteq> []" and "last names \<noteq> []"
      and "path_resolve P [outputPath sj, last names] \<noteq> []"
  shows "resolve_asset P sj relative = Inr (path_resolve P [outputPath sj, last names])"
  using assms by (simp add: resolve_asset_def last_asset_def Let_def)

lemma resolve_asset_missing:
  assumes "assetsByChunkName sj = None
           \<or> (\<exists>assets. assetsByChunkName sj = Some assets
                 \<and> (assets relative = None \<or> assets relative = Some []))"
  shows "resolve_asset P sj relative = Inl (Error (''No assets found for '' @ relative))"
  using assms by (auto simp: resolve_asset_def last_asset_def)

lemma ssrLoadModule_finish_resolved:
  assumes "\<not> hasErrors st" and "hash (toJson st) = Some h" and "h \<noteq> []"
  shows "ssrLoadModule_finish P filename (Inr st) a hs
           = (case resolve_asset P (toJson st)
                     (ssrLoadModule_relative P (api_context a) filename) of
                Inl e \<Rightarrow> (Inl e, a, hs)
              | Inr toLoad \<Rightarrow>
                  (case load_module P (libraryType a) toLoad h (modCache a) hs of
                     (r, cache1, hs1) \<Rightarrow> (r, a \<lparr> modCache := cache1 \<rparr>, hs1)))"
  using assms by (simp add: ssrLoadModule_finish_def Let_def)

text \<open>
  C4. Let \<open>relative\<close> be the requested filename made relative to the context by
  \<^verbatim>\<open>path.relative\<close>, with every backslash turned into a slash and with \<^verbatim>\<open>./\<close> put in
  front unless it starts with \<^verbatim>\<open>./\<close> or \<^verbatim>\<open>../\<close> already. This is the identifier that
  \<open>ssrLoadModule\<close> looks up, and it starts with \<^verbatim>\<open>./\<close> or \<^verbatim>\<open>../\<close>. After a build
  without errors and with a hash: when the mapping from entries to artifact lists holds a
  non-empty list for \<open>relative\<close>, the call loads (through the cache) the last name of
  that list resolved against the output path, the name and the resolved path being
  non-empty strings, as the names of emitted files and absolute paths are; when the
  mapping is absent, or has no list for \<open>relative\<close>, or an empty one, the call throws
  the error \<^verbatim>\<open>No assets found for\<close> followed by \<open>relative\<close> and returns no value,
  leaving the API and the host untouched.
\<close>

theorem resolve_asset_last:
  "(let r = map (\<lambda>c. if c = CHR 0x5C then CHR ''/'' else c)
              (path_relative P (api_context a) filename);
        relative = (if take 2 r = ''./'' \<or> take 3 r = ''../'' then r else ''./'' @ r)
    in ssrLoadModule_relative P (api_context a) filename = relative
     \<and> (take 2 relative = ''./'' \<or> take 3 relative = ''../'')
     \<and> (\<forall>st h assets names.
           \<not> hasErrors st \<and> hash (toJson st) = Some h \<and> h \<noteq> []
           \<and> assetsByChunkName (toJson st) = Some assets \<and> assets relative = Some names
           \<and> names \<noteq> [] \<and> last names \<noteq> []
           \<and> path_resolve P [outputPath (toJson st), last names] \<noteq> [] \<longrightarrow>
           resolve_asset P (toJson st) relative
             = Inr (path_resolve P [outputPath (toJson st), last names])
         \<and> ssrLoadModule_finish P filename (Inr st) a hs
             = (case load_module P (libraryType a)
                       (path_resolve P [outputPath (toJson st), last names]) h (modCache a) hs of
                  (res, cache1, hs1) \<Rightarrow> (res, a \<lparr> modCache := cache1 \<rparr>, hs1)))
     \<and> (\<forall>st h.
           \<not> hasErrors st \<and> hash (toJson st) = Some h \<and> h \<noteq> []
           \<and> (assetsByChunkName (toJson st) = None
              \<or> (\<exists>assets. assetsByChunkName (toJson st) = Some assets
                    \<and> (assets relative = None \<or> assets relative = Some []))) \<longrightarrow>
           resolve_asset P (toJson st) relative
             = Inl (Error (''No assets found for '' @ relative))
         \<and> ssrLoadModule_finish P filename (Inr st) a hs
             = (Inl (Error (''No assets found for '' @ relative)), a, hs)))"
proof -
  define relative where "relative = ssrLoadModule_relative P (api_context a) filename"
  have key: "relative =
     (let r = map (\<lambda>c. if c = CHR 0x5C then CHR ''/'' else c)
                (path_relative P (api_context a) filename)
      in if take 2 r = ''./'' \<or> take 3 r = ''../'' then r else ''./'' @ r)"
    unfolding relative_def by (rule ssrLoadModule_relative_eq)
  have conv: "take 2 relative = ''./'' \<or> take 3 relative = ''../''"
    unfolding relative_def by (rule relative_convention)
  have found: "resolve_asset P (toJson st) relative
             = Inr (path_resolve P [outputPath (toJson st), last names])
         \<and> ssrLoadModule_finish P filename (Inr st) a hs
             = (case load_module P (libraryType a)
                       (path_resolve P [outputPath (toJson st), last names]) h (modCache a) hs of
                  (res, cache1, hs1) \<Rightarrow> (res, a \<lparr> modCache := cache1 \<rparr>, hs1))"
    if H: "\<not> hasErrors st \<and> hash (toJson st) = Some h \<and> h \<noteq> []
           \<and> assetsByChunkName (toJson st) = Some assets \<and> assets relative = Some names
           \<and> names \<noteq> [] \<and> last names \<noteq> []
           \<and> path_resolve P [outputPath (toJson st), last names] \<noteq> []"
    for st h assets names
  proof -
    have r: "resolve_asset P (toJson st) relative
               = Inr (path_resolve P [outputPath (toJson st), last names])"
      using H by (intro resolve_asset_found [where assets = assets]) simp_all
    have "ssrLoadModule_finish P filename (Inr st) a hs
           = (case resolve_asset P (toJson st) relative of
                Inl e \<Rightarrow> (Inl e, a, hs)
              | Inr toLoad \<Rightarrow>
                  (case load_module P (libraryType a) toLoad h (modCache a) hs of
                     (r, cache1, hs1) \<Rightarrow> (r, a \<lparr> modCache := cache1 \<rparr>, hs1)))"
      unfolding relative_def using H by (intro ssrLoadModule_finish_resolved) simp_all
    with r show ?thesis by simp
  qed
  have missing: "resolve_asset P (toJson st) relative
             = Inl (Error (''No assets found for '' @ relative))
         \<and> ssrLoadModule_finish P filename (Inr st) a hs
             = (Inl (Error (''No assets found for '' @ relative)), a, hs)"
    if H: "\<not> hasErrors st \<and> hash (toJson st) = Some h \<and> h \<noteq> []
           \<and> (assetsByChunkName (toJson st) = None
              \<or> (\<exists>assets. assetsByChunkName (toJson st) = Some assets
                    \<and> (assets relative = None \<or> assets relative = Some [])))"
    for st h
  proof -
    have r: "resolve_asset P (toJson st) relative
               = Inl (Error (''No assets found for '' @ relative))"
      using H by (intro resolve_asset_missing) simp
    have "ssrLoadModule_finish P filename (Inr st) a hs
           = (case resolve_asset P (toJson st) relative of
                Inl e \<Rightarrow> (Inl e, a, hs)
              | Inr toLoad \<Rightarrow>
                  (case load_module P (libraryType a) toLoad h (modCache a) hs of
                     (r, cache1, hs1) \<Rightarrow> (r, a \<lparr> modCache := cache1 \<rparr>, hs1)))"
      unfolding relative_def using H by (intro ssrLoadModule_finish_resolved) simp_all
    with r show ?thesis by simp
  qed
  have all: "ssrLoadModule_relative P (api_context a) filename = relative
     \<and> (take 2 relative = ''./'' \<or> take 3 relative = ''../'')
     \<and> (\<forall>st h assets names.
           \<not> hasErrors st \<and> hash (toJson st) = Some h \<and> h \<noteq> []
           \<and> assetsByChunkName (toJson st) = Some assets \<and> assets relative = Some names
           \<and> names \<noteq> [] \<and> last names \<noteq> []
           \<and> path_resolve P [outputPath (toJson st), last names] \<noteq> [] \<longrightarrow>
           resolve_asset P (toJson st) relative
             = Inr (path_resolve P [outputPath (toJson st), last names])
         \<and> ssrLoadModule_finish P filename (Inr st) a hs
             = (case load_module P (libraryType a)
                       (path_resolve P [outputPath (toJson st), last names]) h (modCache a) hs of
                  (res, cache1, hs1) \<Rightarrow> (res, a \<lparr> modCache := cache1 \<rparr>, hs1)))
     \<and> (\<forall>st h.
           \<not> hasErrors st \<and> hash (toJson st) = Some h \<and> h \<noteq> []
           \<and> (assetsByChunkName (toJson st) = None
              \<or> (\<exists>assets. assetsByChunkName (toJson st) = Some assets
                    \<and> (assets relative = None \<or> assets relative = Some []))) \<longrightarrow>
           resolve_asset P (toJson st) relative
             = Inl (Error (''No assets found for '' @ relative))
         \<and> ssrLoadModule_finish P filename (Inr st) a hs
             = (Inl (Error (''No assets found for '' @ relative)), a, hs))"
  proof (intro conjI)
    show "ssrLoadModule_relative P (api_context a) filename = relative"
      by (simp add: relative_def)
    show "take 2 relative = ''./'' \<or> take 3 relative = ''../''" by (rule conv)
    show "\<forall>st h assets names.
           \<not> hasErrors st \<and> hash (toJson st) = Some h \<and> h \<noteq> []
           \<and> assetsByChunkName (toJson st) = Some assets \<and> assets relative = Some names
           \<and> names \<noteq> [] \<and> last names \<noteq> []
           \<and> path_resolve P [outputPath (toJson st), last names] \<noteq> [] \<longrightarrow>
           resolve_asset P (toJson st) relative
             = Inr (path_resolve P [outputPath (toJson st), last names])
         \<and> ssrLoadModule_finish P filename (Inr st) a hs
             = (case load_module P (libraryType a)
                       (path_resolve P [outputPath (toJson st), last names]) h (modCache a) hs of
                  (res, cache1, hs1) \<Rightarrow> (res, a \<lparr> modCache := cache1 \<rparr>, hs1))"
      by (intro allI impI) (rule found)
    show "\<forall>st h.
           \<not> hasErrors st \<and> hash (toJson st) = Some h \<and> h \<noteq> []
           \<and> (assetsByChunkName (toJson st) = None
              \<or> (\<exists>assets. assetsByChunkName (toJson st) = Some assets
                    \<and> (assets relative = None \<or> assets relative = Some []))) \<longrightarrow>
           resolve_asset P (toJson st) relative
             = Inl (Error (''No assets found for '' @ relative))
         \<and> ssrLoadModule_finish P filename (Inr st) a hs
             = (Inl (Error (''No assets found for '' @ relative)), a, hs)"
      by (intro allI impI) (rule missing)
  qed
  show ?thesis
    unfolding Let_def key [unfolded Let_def, symmetric] by (rule all)
qed


lemma example_load_first:
  "load_module example_host ''commonjs'' ''/proj/dist/a.abc.cjs'' ''abc'' Map.empty 0
     = (Inr 0, [''/proj/dist/a.abc.cjs'' \<mapsto> \<lparr> entry_hash = ''abc'', entry_mod = 0 \<rparr>], 1)"
  by (simp add: load_module_def cache_hit_def load_with_def example_host_fields
      example_loader_def)

theorem resolve_asset_last_witness:
  "ssrLoadModule_relative example_host ''/proj'' ''/proj/src/a.ts'' = ''./src/a.ts''
 \<and> ssrLoadModule_finish example_host ''/proj/src/a.ts''
      (Inr (example_stats ''abc'' [''runtime.9.cjs'', ''a.abc.cjs''])) (example_api ''commonjs'') 0
     = (Inr 0,
        (example_api ''commonjs'')
          \<lparr> modCache := [''/proj/dist/a.abc.cjs'' \<mapsto> \<lparr> entry_hash = ''abc'', entry_mod = 0 \<rparr>] \<rparr>,
        1)
 \<and> ssrLoadModule_finish example_host ''/proj/src/a.ts'' (Inr (example_stats ''abc'' []))
      (example_api ''commonjs'') 0
     = (Inl (Error ''No assets found for ./src/a.ts''), example_api ''commonjs'', 0)"
proof -
  let ?a = "example_api ''commonjs''"
  let ?two = "example_stats ''abc'' [''runtime.9.cjs'', ''a.abc.cjs'']"
  let ?none = "example_stats ''abc'' []"
  have k: "(if take 2 (map (\<lambda>c. if c = CHR 0x5C then CHR ''/'' else c)
                    (path_relative example_host (api_context ?a) ''/proj/src/a.ts'')) = ''./''
             \<or> take 3 (map (\<lambda>c. if c = CHR 0x5C then CHR ''/'' else c)
                    (path_relative example_host (api_context ?a) ''/proj/src/a.ts'')) = ''../''
            then map (\<lambda>c. if c = CHR 0x5C then CHR ''/'' else c)
                    (path_relative example_host (api_context ?a) ''/proj/src/a.ts'')
            else ''./'' @ map (\<lambda>c. if c = CHR 0x5C then CHR ''/'' else c)
                    (path_relative example_host (api_context ?a) ''/proj/src/a.ts''))
           = ''./src/a.ts''"
    by (simp add: example_api_fields example_host_fields example_relative_a)
  note T = resolve_asset_last [of example_host ?a "''/proj/src/a.ts''" 0, unfolded Let_def k]
  have H2: "\<not> hasErrors ?two \<and> hash (toJson ?two) = Some ''abc'' \<and> ''abc'' \<noteq> []
           \<and> assetsByChunkName (toJson ?two)
               = Some [''./src/a.ts'' \<mapsto> [''runtime.9.cjs'', ''a.abc.cjs'']]
           \<and> [''./src/a.ts'' \<mapsto> [''runtime.9.cjs'', ''a.abc.cjs'']] ''./src/a.ts''
               = Some [''runtime.9.cjs'', ''a.abc.cjs'']
           \<and> [''runtime.9.cjs'', ''a.abc.cjs''] \<noteq> []
           \<and> last [''runtime.9.cjs'', ''a.abc.cjs''] \<noteq> []
           \<and> path_resolve example_host
                 [outputPath (toJson ?two), last [''runtime.9.cjs'', ''a.abc.cjs'']] \<noteq> []"
    by (simp add: example_stats_fields example_host_fields)
  have H0: "\<not> hasErrors ?none \<and> hash (toJson ?none) = Some ''abc'' \<and> ''abc'' \<noteq> []
           \<and> (assetsByChunkName (toJson ?none) = None
              \<or> (\<exists>assets. assetsByChunkName (toJson ?none) = Some assets
                    \<and> (assets ''./src/a.ts'' = None \<or> assets ''./src/a.ts'' = Some [])))"
    by (simp add: example_stats_fields)
  have c1: "ssrLoadModule_relative example_host (api_context ?a) ''/proj/src/a.ts''
              = ''./src/a.ts''"
    by (rule T [THEN conjunct1])
  have c2: "ssrLoadModule_finish example_host ''/proj/src/a.ts'' (Inr ?two) ?a 0
             = (case load_module example_host (libraryType ?a)
                       (path_resolve example_host
                          [outputPath (toJson ?two), last [''runtime.9.cjs'', ''a.abc.cjs'']])
                       ''abc'' (modCache ?a) 0 of
                  (res, cache1, hs1) \<Rightarrow> (res, ?a \<lparr> modCache := cache1 \<rparr>, hs1))"
    by (rule T [THEN conjunct2, THEN conjunct2, THEN conjunct1, rule_format, OF H2,
                THEN conjunct2])
  have c3: "ssrLoadModule_finish example_host ''/proj/src/a.ts'' (Inr ?none) ?a 0
             = (Inl (Error (''No assets found for '' @ ''./src/a.ts'')), ?a, 0)"
    by (rule T [THEN conjunct2, THEN conjunct2, THEN conjunct2, rule_format, OF H0,
                THEN conjunct2])
  from c1 c2 c3 show ?thesis
    by (simp add: example_stats_fields example_host_fields example_api_fields
        example_load_first)
qed

subsection \<open>The module cache\<close>

lemma cache_hit_Some:
  "cache_hit cache toLoad h = Some md \<longleftrightarrow>
     (\<exists>cached. cache toLoad = Some cached \<and> entry_hash cached = h \<and> entry_mod cached = md)"
  by (auto simp: cache_hit_def split: option.splits)

lemma cache_hit_None:
  "cache_hit cache toLoad h = None \<longleftrightarrow>
     (\<nexists>cached. cache toLoad = Some cached \<and> entry_hash cached = h)"
  by (auto simp: cache_hit_def split: option.splits)

lemma cache_hit_stored:
  "cache_hit (cache(toLoad \<mapsto> \<lparr> entry_hash = h, entry_mod = md \<rparr>)) toLoad h = Some md"
  by (simp add: cache_hit_def)

text \<open>The loader of a library type, for the two types that have one.\<close>

lemma load_module_hit:
  "cache_hit cache toLoad h = Some md \<Longrightarrow>
     load_module P ty toLoad h cache hs = (Inr md, cache, hs)"
  by (simp add: load_module_def)

lemma load_module_commonjs:
  "cache_hit cache toLoad h = None \<Longrightarrow>
     load_module P ''commonjs'' toLoad h cache hs = load_with (host_require P) toLoad h cache hs"
  by (simp add: load_module_def)

lemma load_module_module:
  "cache_hit cache toLoad h = None \<Longrightarrow>
     load_module P ''module'' toLoad h cache hs = load_with (host_import P) toLoad h cache hs"
  by (simp add: load_module_def)

lemma load_with_ok:
  "loader toLoad hs = (Inr md, hs1) \<Longrightarrow>
     load_with loader toLoad h cache hs
       = (Inr md, cache(toLoad \<mapsto> \<lparr> entry_hash = h, entry_mod = md \<rparr>), hs1)"
  by (simp add: load_with_def)

lemma load_with_throws:
  "loader toLoad hs = (Inl e, hs1) \<Longrightarrow>
     load_with loader toLoad h cache hs = (Inl e, cache, hs1)"
  by (simp add: load_with_def)

lemma ssrLoadModule_finish_load:
  assumes "\<not> hasErrors st" "hash (toJson st) = Some h" "h \<noteq> []"
      and "resolve_asset P (toJson st) (ssrLoadModule_relative P (api_context a) filename)
             = Inr toLoad"
      and "load_module P (libraryType a) toLoad h (modCache a) hs = (r, cache1, hs1)"
  shows "ssrLoadModule_finish P filename (Inr st) a hs = (r, a \<lparr> modCache := cache1 \<rparr>, hs1)"
  using assms by (simp add: ssrLoadModule_finish_def Let_def)

text \<open>
  C1. Let the build have no errors and the hash \<open>h\<close>, and let the artifact resolve to
  \<open>toLoad\<close>. If the cache holds for \<open>toLoad\<close> an entry whose hash is \<open>h\<close>, then
  \<open>ssrLoadModule\<close> returns the module stored in that entry, and neither the API nor
  the host changes: no loader is called. Otherwise, with the library type \<^verbatim>\<open>commonjs\<close>
  (or \<^verbatim>\<open>module\<close>) and a load by \<^verbatim>\<open>require\<close> (or \<^verbatim>\<open>import()\<close>) that yields the
  module \<open>md\<close>, it returns \<open>md\<close> and the entry of the cache for \<open>toLoad\<close> becomes
  the pair of \<open>h\<close> and \<open>md\<close>, every other entry staying as it was. In both cases a
  second call with the same stats returns the same module and changes nothing.
\<close>

theorem ssrLoadModule_cache:
  assumes "\<not> hasErrors st" and "hash (toJson st) = Some h" and "h \<noteq> []"
      and "resolve_asset P (toJson st) (ssrLoadModule_relative P (api_context a) filename)
             = Inr toLoad"
  shows "(\<forall>cached. modCache a toLoad = Some cached \<and> entry_hash cached = h \<longrightarrow>
            ssrLoadModule_finish P filename (Inr st) a hs = (Inr (entry_mod cached), a, hs))
       \<and> (\<forall>md hs1.
            (\<nexists>cached. modCache a toLoad = Some cached \<and> entry_hash cached = h)
            \<and> (libraryType a = ''commonjs'' \<and> host_require P toLoad hs = (Inr md, hs1)
               \<or> libraryType a = ''module'' \<and> host_import P toLoad hs = (Inr md, hs1)) \<longrightarrow>
            ssrLoadModule_finish P filename (Inr st) a hs
              = (Inr md,
                 a \<lparr> modCache := (modCache a)(toLoad \<mapsto> \<lparr> entry_hash = h, entry_mod = md \<rparr>) \<rparr>,
                 hs1))
       \<and> (\<forall>md a1 hs1.
            ssrLoadModule_finish P filename (Inr st) a hs = (Inr md, a1, hs1) \<longrightarrow>
            ssrLoadModule_finish P filename (Inr st) a1 hs1 = (Inr md, a1, hs1))"
proof (intro conjI allI impI)
  fix cached
  assume "modCache a toLoad = Some cached \<and> entry_hash cached = h"
  then have "cache_hit (modCache a) toLoad h = Some (entry_mod cached)"
    by (simp add: cache_hit_Some)
  then have "load_module P (libraryType a) toLoad h (modCache a) hs
               = (Inr (entry_mod cached), modCache a, hs)"
    by (rule load_module_hit)
  from ssrLoadModule_finish_load [OF assms this]
  show "ssrLoadModule_finish P filename (Inr st) a hs = (Inr (entry_mod cached), a, hs)"
    by simp
next
  fix md hs1
  assume H: "(\<nexists>cached. modCache a toLoad = Some cached \<and> entry_hash cached = h)
            \<and> (libraryType a = ''commonjs'' \<and> host_require P toLoad hs = (Inr md, hs1)
               \<or> libraryType a = ''module'' \<and> host_import P toLoad hs = (Inr md, hs1))"
  then have miss: "cache_hit (modCache a) toLoad h = None"
    by (simp add: cache_hit_None)
  from H have "load_module P (libraryType a) toLoad h (modCache a) hs
          = (Inr md, (modCache a)(toLoad \<mapsto> \<lparr> entry_hash = h, entry_mod = md \<rparr>), hs1)"
    by (auto simp: load_module_commonjs [OF miss] load_module_module [OF miss] load_with_ok)
  from ssrLoadModule_finish_load [OF assms this]
  show "ssrLoadModule_finish P filename (Inr st) a hs
              = (Inr md,
                 a \<lparr> modCache := (modCache a)(toLoad \<mapsto> \<lparr> entry_hash = h, entry_mod = md \<rparr>) \<rparr>,
                 hs1)" .
next
  fix md a1 hs1
  assume R: "ssrLoadModule_finish P filename (Inr st) a hs = (Inr md, a1, hs1)"
  obtain r cache1 hs2 where
    L: "load_module P (libraryType a) toLoad h (modCache a) hs = (r, cache1, hs2)"
    by (cases "load_module P (libraryType a) toLoad h (modCache a) hs") auto
  from ssrLoadModule_finish_load [OF assms L] R
  have eq: "r = Inr md" "a1 = a \<lparr> modCache := cache1 \<rparr>" "hs2 = hs1" by simp_all
  have hit: "cache_hit cache1 toLoad h = Some md"
  proof (cases "cache_hit (modCache a) toLoad h")
    case (Some md')
    with L eq show ?thesis by (simp add: load_module_def)
  next
    case None
    with L eq show ?thesis
      by (auto simp: load_module_def load_with_def cache_hit_stored
          split: if_splits prod.splits sum.splits)
  qed
  have ctx: "api_context a1 = api_context a" "libraryType a1 = libraryType a"
            "modCache a1 = cache1"
    by (simp_all add: eq)
  have "load_module P (libraryType a1) toLoad h (modCache a1) hs1 = (Inr md, modCache a1, hs1)"
    using hit by (simp add: ctx load_module_hit)
  from ssrLoadModule_finish_load [of st h P a1 filename toLoad, OF assms(1-3) _ this] assms(4)
  show "ssrLoadModule_finish P filename (Inr st) a1 hs1 = (Inr md, a1, hs1)"
    by (simp add: ctx)
qed


theorem ssrLoadModule_cache_witness:
  "ssrLoadModule_finish example_host ''/proj/src/a.ts''
      (Inr (example_stats ''abc'' [''a.abc.cjs''])) (example_api ''commonjs'') 0
     = (Inr 0,
        (example_api ''commonjs'')
          \<lparr> modCache := [''/proj/dist/a.abc.cjs'' \<mapsto> \<lparr> entry_hash = ''abc'', entry_mod = 0 \<rparr>] \<rparr>,
        1)
 \<and> ssrLoadModule_finish example_host ''/proj/src/a.ts''
      (Inr (example_stats ''abc'' [''a.abc.cjs'']))
      ((example_api ''commonjs'')
          \<lparr> modCache := [''/proj/dist/a.abc.cjs'' \<mapsto> \<lparr> entry_hash = ''abc'', entry_mod = 0 \<rparr>] \<rparr>)
      1
     = (Inr 0,
        (example_api ''commonjs'')
          \<lparr> modCache := [''/proj/dist/a.abc.cjs'' \<mapsto> \<lparr> entry_hash = ''abc'', entry_mod = 0 \<rparr>] \<rparr>,
        1)"
proof -
  let ?st = "example_stats ''abc'' [''a.abc.cjs'']"
  let ?a = "example_api ''commonjs''"
  let ?a1 = "?a \<lparr> modCache :=
               [''/proj/dist/a.abc.cjs'' \<mapsto> \<lparr> entry_hash = ''abc'', entry_mod = 0 \<rparr>] \<rparr>"
  have s: "\<not> hasErrors ?st" "hash (toJson ?st) = Some ''abc''" "''abc'' \<noteq> []"
    by (simp_all add: example_stats_fields)
  have r: "resolve_asset example_host (toJson ?st)
             (ssrLoadModule_relative example_host (api_context ?a) ''/proj/src/a.ts'')
           = Inr ''/proj/dist/a.abc.cjs''"
    by (simp add: example_api_fields example_keys example_resolve_asset)
  have r1: "resolve_asset example_host (toJson ?st)
             (ssrLoadModule_relative example_host (api_context ?a1) ''/proj/src/a.ts'')
           = Inr ''/proj/dist/a.abc.cjs''"
    by (simp add: example_api_fields example_keys example_resolve_asset)
  have miss: "\<nexists>cached. modCache ?a ''/proj/dist/a.abc.cjs'' = Some cached
                \<and> entry_hash cached = ''abc''"
    by (simp add: example_api_fields)
  have ld: "libraryType ?a = ''commonjs''"
           "host_require example_host ''/proj/dist/a.abc.cjs'' 0 = (Inr 0, 1)"
    by (simp_all add: example_api_fields example_host_fields example_loader_def)
  have hit: "modCache ?a1 ''/proj/dist/a.abc.cjs''
               = Some \<lparr> entry_hash = ''abc'', entry_mod = 0 \<rparr>"
    by simp
  from ssrLoadModule_cache [OF s r, of 0, THEN conjunct2, THEN conjunct1, rule_format, of 0 1]
    miss ld
  have first: "ssrLoadModule_finish example_host ''/proj/src/a.ts'' (Inr ?st) ?a 0
                 = (Inr 0, ?a1, 1)"
    by (simp add: example_api_fields)
  from ssrLoadModule_cache [OF s r1, of 1, THEN conjunct1, rule_format,
      of "\<lparr> entry_hash = ''abc'', entry_mod = 0 \<rparr>"] hit
  have second: "ssrLoadModule_finish example_host ''/proj/src/a.ts'' (Inr ?st) ?a1 1
                  = (Inr 0, ?a1, 1)"
    by simp
  from first second show ?thesis by simp
qed

subsection \<open>A loader that throws\<close>

text \<open>
  C9. Let the build have no errors and the hash \<open>h\<close>, let the artifact resolve to
  \<open>toLoad\<close>, let the cache hold no entry of hash \<open>h\<close> for it, and let the loader of
  the library type throw the error \<open>e\<close>. Then \<open>ssrLoadModule\<close> throws \<open>e\<close> and
  the API, with its cache, is exactly as before. A second call with the same stats calls
  the loader again, in the state the host is in by then: it throws what the loader
  throws then, or returns and stores what the loader returns then.
\<close>

theorem load_error_keeps_cache:
  assumes "\<not> hasErrors st" and "hash (toJson st) = Some h" and "h \<noteq> []"
      and "resolve_asset P (toJson st) (ssrLoadModule_relative P (api_context a) filename)
             = Inr toLoad"
      and "\<nexists>cached. modCache a toLoad = Some cached \<and> entry_hash cached = h"
      and "libraryType a = ''commonjs'' \<and> loader = host_require P
           \<or> libraryType a = ''module'' \<and> loader = host_import P"
      and "loader toLoad hs = (Inl e, hs1)"
  shows "ssrLoadModule_finish P filename (Inr st) a hs = (Inl e, a, hs1)
       \<and> (\<forall>e2 hs2. loader toLoad hs1 = (Inl e2, hs2) \<longrightarrow>
            ssrLoadModule_finish P filename (Inr st) a hs1 = (Inl e2, a, hs2))
       \<and> (\<forall>md hs2. loader toLoad hs1 = (Inr md, hs2) \<longrightarrow>
            ssrLoadModule_finish P filename (Inr st) a hs1
              = (Inr md,
                 a \<lparr> modCache := (modCache a)(toLoad \<mapsto> \<lparr> entry_hash = h, entry_mod = md \<rparr>) \<rparr>,
                 hs2))"
proof -
  have miss: "cache_hit (modCache a) toLoad h = None"
    using assms(5) by (simp add: cache_hit_None)
  have L: "load_module P (libraryType a) toLoad h (modCache a) s
             = load_with loader toLoad h (modCache a) s" for s
    using assms(6) by (auto simp: load_module_commonjs [OF miss] load_module_module [OF miss])
  have F: "ssrLoadModule_finish P filename (Inr st) a s = (r, a \<lparr> modCache := c \<rparr>, s1)"
    if "load_with loader toLoad h (modCache a) s = (r, c, s1)" for s r c s1
    using ssrLoadModule_finish_load [OF assms(1-4), of s r c s1] that by (simp add: L)
  have 1: "ssrLoadModule_finish P filename (Inr st) a hs = (Inl e, a, hs1)"
    using F [OF load_with_throws [where loader = loader and toLoad = toLoad and hs = hs, OF assms(7)]]
    by simp
  have 2: "ssrLoadModule_finish P filename (Inr st) a hs1 = (Inl e2, a, hs2)"
    if "loader toLoad hs1 = (Inl e2, hs2)" for e2 hs2
    using F [OF load_with_throws [where loader = loader and toLoad = toLoad and hs = hs1, OF that]]
    by simp
  have 3: "ssrLoadModule_finish P filename (Inr st) a hs1
              = (Inr md,
                 a \<lparr> modCache := (modCache a)(toLoad \<mapsto> \<lparr> entry_hash = h, entry_mod = md \<rparr>) \<rparr>,
                 hs2)"
    if "loader toLoad hs1 = (Inr md, hs2)" for md hs2
    using F [OF load_with_ok [where loader = loader and toLoad = toLoad and hs = hs1, OF that]]
    by simp
  show ?thesis
    by (intro conjI allI impI) (rule 1, erule 2, erule 3)
qed

lemma example_resolve_broken:
  "resolve_asset example_host (toJson (example_stats h [''broken.cjs''])) ''./src/a.ts''
     = Inr ''/proj/dist/broken.cjs''"
  by (simp add: resolve_asset_def last_asset_def example_stats_fields example_host_fields)

theorem load_error_keeps_cache_witness:
  "ssrLoadModule_finish example_host ''/proj/src/a.ts''
      (Inr (example_stats ''abc'' [''broken.cjs''])) (example_api ''commonjs'') 0
     = (Inl (HostError ''Cannot find module''), example_api ''commonjs'', 1)
 \<and> ssrLoadModule_finish example_host ''/proj/src/a.ts''
      (Inr (example_stats ''abc'' [''broken.cjs''])) (example_api ''commonjs'') 1
     = (Inl (HostError ''Cannot find module''), example_api ''commonjs'', 2)"
proof -
  let ?st = "example_stats ''abc'' [''broken.cjs'']"
  let ?a = "example_api ''commonjs''"
  have s: "\<not> hasErrors ?st" "hash (toJson ?st) = Some ''abc''" "''abc'' \<noteq> []"
    by (simp_all add: example_stats_fields)
  have r: "resolve_asset example_host (toJson ?st)
             (ssrLoadModule_relative example_host (api_context ?a) ''/proj/src/a.ts'')
           = Inr ''/proj/dist/broken.cjs''"
    by (simp add: example_api_fields example_keys example_resolve_broken)
  have miss: "\<nexists>cached. modCache ?a ''/proj/dist/broken.cjs'' = Some cached
                \<and> entry_hash cached = ''abc''"
    by (simp add: example_api_fields)
  have ty: "libraryType ?a = ''commonjs'' \<and> example_loader = host_require example_host
           \<or> libraryType ?a = ''module'' \<and> example_loader = host_import example_host"
    by (simp add: example_api_fields example_host_fields)
  have l0: "example_loader ''/proj/dist/broken.cjs'' 0 = (Inl (HostError ''Cannot find module''), 1)"
   and l1: "example_loader ''/proj/dist/broken.cjs'' 1 = (Inl (HostError ''Cannot find module''), 2)"
    by (simp_all add: example_loader_def)
  note T = load_error_keeps_cache [OF s r miss ty l0]
  from T [THEN conjunct1] T [THEN conjunct2, THEN conjunct1, rule_format, OF l1]
  show ?thesis by simp
qed

subsection \<open>The key of an entry and the key that is looked up\<close>

lemma createWebpackAPI_context:
  "createWebpackAPI P opts = Inr a \<Longrightarrow> manager_context (api_manager a) = api_context a"
  by (auto simp: createWebpackAPI_def createManager_def Let_def
      split: option.splits if_splits)

lemma addEntry_context: "manager_context (addEntry P filename m) = manager_context m"
  by (simp add: addEntry_def Let_def)

lemma waitForDone_context: "manager_context (snd (waitForDone m)) = manager_context m"
  by (simp add: waitForDone_def split: option.splits status.splits)

lemma ssrLoadModule_start_context:
  "manager_context (api_manager a) = api_context a \<Longrightarrow>
     manager_context (api_manager (snd (ssrLoadModule_start P filename a)))
       = api_context (snd (ssrLoadModule_start P filename a))"
  using waitForDone_context [of "addEntry P (path_resolve P [filename]) (api_manager a)"]
  by (simp add: ssrLoadModule_start_def Let_def addEntry_context split_beta)

lemma waitForDone_plugins: "entry_plugins (snd (waitForDone m)) = entry_plugins m"
  by (simp add: waitForDone_def split: option.splits status.splits)

text \<open>
  A host whose \<^verbatim>\<open>path.relative\<close> resolves its two arguments before it compares them,
  and whose \<^verbatim>\<open>path.resolve\<close> returns a path that resolves to itself, gives the same
  relative path for a filename and for its resolved form.
\<close>

lemma relative_of_resolved:
  assumes "\<And>frm to. path_relative P frm to = rel (path_resolve P [frm]) (path_resolve P [to])"
      and "path_resolve P [path_resolve P [filename]] = path_resolve P [filename]"
  shows "path_relative P ctxt (path_resolve P [filename]) = path_relative P ctxt filename"
  by (simp add: assms)

text \<open>
  C10. The identifier computed by \<open>addEntry\<close> and the identifier computed by
  \<open>ssrLoadModule\<close> are the same function of the context and the filename. The
  facade registers a filename under its resolved path: when \<^verbatim>\<open>path.relative\<close> gives the
  same result for the filename and for its resolved path (as it does on a host where it
  resolves its arguments first), the plugin applied for a new entry carries exactly the
  identifier that \<open>ssrLoadModule\<close> looks up for that filename.
\<close>

theorem entry_key_is_lookup_key:
  "addEntry_relative P ctxt filename = ssrLoadModule_relative P ctxt filename
 \<and> (manager_context (api_manager a) = api_context a
     \<and> path_resolve P [filename] \<notin> set (entries (api_manager a))
     \<and> path_relative P (api_context a) (path_resolve P [filename])
         = path_relative P (api_context a) filename
     \<longrightarrow> entry_plugins (api_manager (snd (ssrLoadModule_start P filename a)))
           = entry_plugins (api_manager a) @
               [(api_context a,
                 ssrLoadModule_relative P (api_context a) filename,
                 ssrLoadModule_relative P (api_context a) filename)])"
proof (intro conjI impI)
  show "addEntry_relative P ctxt filename = ssrLoadModule_relative P ctxt filename"
    by (simp add: addEntry_relative_def ssrLoadModule_relative_def)
next
  assume H: "manager_context (api_manager a) = api_context a
     \<and> path_resolve P [filename] \<notin> set (entries (api_manager a))
     \<and> path_relative P (api_context a) (path_resolve P [filename])
         = path_relative P (api_context a) filename"
  let ?m = "api_manager a"
  have key: "addEntry_relative P (api_context a) (path_resolve P [filename])
               = ssrLoadModule_relative P (api_context a) filename"
    using H by (simp add: addEntry_relative_def ssrLoadModule_relative_def)
  have "entry_plugins (addEntry P (path_resolve P [filename]) ?m)
          = entry_plugins ?m @
              [(manager_context ?m,
                addEntry_relative P (manager_context ?m) (path_resolve P [filename]),
                addEntry_relative P (manager_context ?m) (path_resolve P [filename]))]"
    using H by (simp add: addEntry_def set_add_def Let_def)
  then have "entry_plugins (addEntry P (path_resolve P [filename]) ?m)
          = entry_plugins ?m @
               [(api_context a,
                 ssrLoadModule_relative P (api_context a) filename,
                 ssrLoadModule_relative P (api_context a) filename)]"
    using H by (simp add: key)
  moreover have "entry_plugins (api_manager (snd (ssrLoadModule_start P filename a)))
          = entry_plugins (addEntry P (path_resolve P [filename]) ?m)"
    using waitForDone_plugins [of "addEntry P (path_resolve P [filename]) ?m"]
    by (simp add: ssrLoadModule_start_def Let_def split_beta)
  ultimately show "entry_plugins (api_manager (snd (ssrLoadModule_start P filename a)))
           = entry_plugins (api_manager a) @
               [(api_context a,
                 ssrLoadModule_relative P (api_context a) filename,
                 ssrLoadModule_relative P (api_context a) filename)]"
    by simp
qed

lemma example_relative_rel: "example_relative ''/proj'' ''src/a.ts'' = ''src/a.ts''"
  by (simp add: example_relative_def startsWith_def)

theorem entry_key_is_lookup_key_witness:
  "ssrLoadModule_relative example_host ''/proj'' ''src/a.ts'' = ''./src/a.ts''
 \<and> entry_plugins (api_manager
       (snd (ssrLoadModule_start example_host ''src/a.ts'' (example_api ''commonjs''))))
     = [(''/proj'', ''./src/a.ts'', ''./src/a.ts'')]"
proof -
  let ?a = "example_api ''commonjs''"
  have k: "ssrLoadModule_relative example_host ''/proj'' ''src/a.ts'' = ''./src/a.ts''"
    by (simp add: ssrLoadModule_relative_def example_host_fields example_relative_rel
        replace_backslashes_def startsWith_def)
  have c: "manager_context (api_manager ?a) = api_context ?a"
    by (simp add: example_api_fields example_manager_def)
  have n: "path_resolve example_host [''src/a.ts''] \<notin> set (entries (api_manager ?a))"
    by (simp add: example_api_fields example_manager_def)
  have r: "path_relative example_host (api_context ?a) (path_resolve example_host [''src/a.ts''])
             = path_relative example_host (api_context ?a) ''src/a.ts''"
    by (simp add: example_api_fields example_host_fields example_relative_a
        example_relative_rel)
  from entry_key_is_lookup_key [of example_host "''/proj''" "''src/a.ts''" ?a,
      THEN conjunct2, rule_format, OF conjI [OF c conjI [OF n r]]]
  have "entry_plugins (api_manager (snd (ssrLoadModule_start example_host ''src/a.ts'' ?a)))
          = entry_plugins (api_manager ?a) @
               [(api_context ?a,
                 ssrLoadModule_relative example_host (api_context ?a) ''src/a.ts'',
                 ssrLoadModule_relative example_host (api_context ?a) ''src/a.ts'')]" .
  then show ?thesis
    by (simp add: k example_api_fields example_manager_def)
qed

subsection \<open>Waiters and the watch callback\<close>

lemma settle_Pending:
  "settle ls Pending = (case ls of Built s \<Rightarrow> Resolved s | Failed e \<Rightarrow> Rejected e)"
  by (simp add: settle_def resolve_def reject_def split: status.splits)

lemma settle_settled: "d \<noteq> Pending \<Longrightarrow> settle ls d = d"
  by (cases d) (simp_all add: settle_def resolve_def reject_def split: status.splits)

lemma settle_not_Pending: "settle ls d \<noteq> Pending"
  by (cases d) (simp_all add: settle_def resolve_def reject_def split: status.splits)

lemma watch_callback_waiting:
  "waiting (watch_callback err st m) = map (settle (record_status err st)) (waiting m)"
  by (simp add: watch_callback_def Let_def)

lemma waitForDone_running:
  "running m \<Longrightarrow>
     waitForDone m = (Awaiting (length (waiting m)), m \<lparr> waiting := waiting m @ [Pending] \<rparr>)"
  by (simp add: waitForDone_def)

lemma waitForDone_waiting:
  "waiting (snd (waitForDone m)) = waiting m
   \<or> waiting (snd (waitForDone m)) = waiting m @ [Pending]"
  by (simp add: waitForDone_def split: option.splits status.splits)

lemma addEntry_waiting: "waiting (addEntry P filename m) = waiting m"
  by (simp add: addEntry_def Let_def)

text \<open>One event: the array keeps its elements, and only a callback changes one.\<close>

lemma fire_length: "length (waiting m) \<le> length (waiting (fire P e m))"
proof (cases e)
  case WaitForDone
  then show ?thesis using waitForDone_waiting [of m] by auto
qed (simp_all add: runningCallback_def done_tap_def watch_callback_waiting addEntry_waiting)

lemma fire_other:
  assumes "\<not> is_callback e" and "i < length (waiting m)"
  shows "waiting (fire P e m) ! i = waiting m ! i"
proof (cases e)
  case WaitForDone
  then show ?thesis using waitForDone_waiting [of m] assms(2) by (auto simp: nth_append)
next
  case (Callback err st)
  then show ?thesis using assms(1) by simp
qed (simp_all add: runningCallback_def done_tap_def addEntry_waiting)

lemma fire_settled:
  assumes "i < length (waiting m)" and "waiting m ! i \<noteq> Pending"
  shows "waiting (fire P e m) ! i = waiting m ! i"
proof (cases "is_callback e")
  case True
  then obtain err st where "e = Callback err st" by (cases e) auto
  then show ?thesis using assms by (simp add: watch_callback_waiting settle_settled)
next
  case False
  then show ?thesis using assms(1) by (rule fire_other)
qed

lemma run_Nil: "run P [] m = m"
  by (simp add: run_def)

lemma run_Cons: "run P (e # es) m = run P es (fire P e m)"
  by (simp add: run_def)

lemma run_append: "run P (es @ es') m = run P es' (run P es m)"
  by (simp add: run_def)

lemma run_length: "length (waiting m) \<le> length (waiting (run P es m))"
proof (induction es arbitrary: m)
  case Nil
  then show ?case by (simp add: run_Nil)
next
  case (Cons e es)
  have "length (waiting m) \<le> length (waiting (fire P e m))" by (rule fire_length)
  also have "\<dots> \<le> length (waiting (run P es (fire P e m)))" by (rule Cons.IH)
  finally show ?case by (simp add: run_Cons)
qed

lemma run_other:
  assumes "\<forall>e \<in> set es. \<not> is_callback e" and "i < length (waiting m)"
  shows "waiting (run P es m) ! i = waiting m ! i"
  using assms
proof (induction es arbitrary: m)
  case Nil
  then show ?case by (simp add: run_Nil)
next
  case (Cons e es)
  have lt: "i < length (waiting (fire P e m))"
    using Cons.prems(2) fire_length [of m P e] by simp
  have "waiting (run P es (fire P e m)) ! i = waiting (fire P e m) ! i"
    using Cons.prems(1) lt by (intro Cons.IH) simp_all
  also have "\<dots> = waiting m ! i"
    using Cons.prems by (intro fire_other) simp_all
  finally show ?case by (simp add: run_Cons)
qed

lemma run_settled:
  assumes "i < length (waiting m)" and "waiting m ! i \<noteq> Pending"
  shows "waiting (run P es m) ! i = waiting m ! i"
  using assms
proof (induction es arbitrary: m)
  case Nil
  then show ?case by (simp add: run_Nil)
next
  case (Cons e es)
  have lt: "i < length (waiting (fire P e m))"
    using Cons.prems(1) fire_length [of m P e] by simp
  have eq: "waiting (fire P e m) ! i = waiting m ! i"
    using Cons.prems by (rule fire_settled)
  have "waiting (run P es (fire P e m)) ! i = waiting (fire P e m) ! i"
    using lt Cons.prems(2) eq by (intro Cons.IH) simp_all
  then show ?case by (simp add: run_Cons eq)
qed

text \<open>
  C2, as stated, fails: the array of waiters is not cleared at settlement. After a
  waiter was pushed during a run and the callback has resolved it, the array still
  holds it, and it is still there, resolved with the stats of the first build, after
  the callback of the next build.
\<close>

theorem waiting_not_cleared_counterexample:
  "waiting (watch_callback None (Some (example_stats ''abc'' [''a.abc.cjs'']))
      (snd (waitForDone (runningCallback example_manager))))
     = [Resolved (example_stats ''abc'' [''a.abc.cjs''])]
 \<and> waiting (watch_callback None (Some (example_stats ''def'' [''a.def.cjs'']))
      (watch_callback None (Some (example_stats ''abc'' [''a.abc.cjs'']))
        (snd (waitForDone (runningCallback example_manager)))))
     = [Resolved (example_stats ''abc'' [''a.abc.cjs''])]"
  by (simp add: watch_callback_waiting waitForDone_def runningCallback_def example_manager_def
      record_status_def settle_def resolve_def)

text \<open>
  C2, amended. A call of \<open>waitForDone\<close> while \<open>running\<close> is true pushes one pending
  deferred and follows it. Whatever events come next, the deferred stays pending as long
  as no watch callback is among them; the first watch callback settles it with the
  outcome of that callback (rejected with the error when there is an error or there are
  no stats, resolved with the stats otherwise); and it keeps that outcome under all later
  events, the callbacks of later builds included. A watch callback gives every deferred
  that is pending the same outcome and leaves every settled one as it is.
\<close>

theorem waiters_settled_together:
  assumes "running m"
  shows "waitForDone m = (Awaiting (length (waiting m)), m \<lparr> waiting := waiting m @ [Pending] \<rparr>)
       \<and> (\<forall>es1. (\<forall>e \<in> set es1. \<not> is_callback e) \<longrightarrow>
            waiting (run P (WaitForDone # es1) m) ! length (waiting m) = Pending
          \<and> (\<forall>err st es2.
               waiting (run P (WaitForDone # es1 @ Callback err st # es2) m) ! length (waiting m)
                 = (case record_status err st of
                      Built s \<Rightarrow> Resolved s
                    | Failed e \<Rightarrow> Rejected e)))
       \<and> (\<forall>err st k i. i < length (waiting k) \<longrightarrow>
            waiting (watch_callback err st k) ! i
              = (if waiting k ! i = Pending
                 then (case record_status err st of
                         Built s \<Rightarrow> Resolved s
                       | Failed e \<Rightarrow> Rejected e)
                 else waiting k ! i))"
proof (intro conjI allI impI)
  show "waitForDone m = (Awaiting (length (waiting m)), m \<lparr> waiting := waiting m @ [Pending] \<rparr>)"
    using assms by (rule waitForDone_running)
next
  fix es1
  assume nc: "\<forall>e \<in> set es1. \<not> is_callback e"
  let ?i = "length (waiting m)"
  let ?m1 = "snd (waitForDone m)"
  have w1: "waiting ?m1 = waiting m @ [Pending]"
    using assms by (simp add: waitForDone_running)
  then have i1: "?i < length (waiting ?m1)" and p1: "waiting ?m1 ! ?i = Pending"
    by simp_all
  have before: "waiting (run P es1 ?m1) ! ?i = Pending"
    using run_other [OF nc i1] p1 by simp
  then show "waiting (run P (WaitForDone # es1) m) ! length (waiting m) = Pending"
    by (simp add: run_Cons)
  fix err st es2
  let ?m2 = "run P es1 ?m1"
  let ?m3 = "watch_callback err st ?m2"
  have i2: "?i < length (waiting ?m2)"
    using i1 run_length [of ?m1 P es1] by simp
  have at3: "waiting ?m3 ! ?i = settle (record_status err st) Pending"
    using i2 before by (simp add: watch_callback_waiting)
  have i3: "?i < length (waiting ?m3)"
    using i2 by (simp add: watch_callback_waiting)
  have np: "waiting ?m3 ! ?i \<noteq> Pending"
    unfolding at3 by (rule settle_not_Pending)
  have "waiting (run P es2 ?m3) ! ?i = waiting ?m3 ! ?i"
    using i3 np by (rule run_settled)
  moreover have "run P (WaitForDone # es1 @ Callback err st # es2) m = run P es2 ?m3"
    by (simp add: run_Cons run_append)
  ultimately
  show "waiting (run P (WaitForDone # es1 @ Callback err st # es2) m) ! length (waiting m)
          = (case record_status err st of Built s \<Rightarrow> Resolved s | Failed e \<Rightarrow> Rejected e)"
    by (simp add: at3 settle_Pending)
next
  fix err st and k :: manager and i
  assume "i < length (waiting k)"
  then show "waiting (watch_callback err st k) ! i
              = (if waiting k ! i = Pending
                 then (case record_status err st of
                         Built s \<Rightarrow> Resolved s
                       | Failed e \<Rightarrow> Rejected e)
                 else waiting k ! i)"
    by (simp add: watch_callback_waiting settle_Pending settle_settled)
qed


theorem waiters_settled_together_witness:
  "waiting (run example_host
      [WaitForDone, WaitForDone, Callback None (Some (example_stats ''abc'' [''a.abc.cjs''])),
       Invalid, Callback (Some (EngineError ''watch failed'')) None]
      (runningCallback example_manager)) ! 0
     = Resolved (example_stats ''abc'' [''a.abc.cjs''])
 \<and> waiting (run example_host
      [WaitForDone, WaitForDone, Callback None (Some (example_stats ''abc'' [''a.abc.cjs''])),
       Invalid, Callback (Some (EngineError ''watch failed'')) None]
      (runningCallback example_manager)) ! 1
     = Resolved (example_stats ''abc'' [''a.abc.cjs''])"
proof -
  let ?st = "example_stats ''abc'' [''a.abc.cjs'']"
  let ?es2 = "[Invalid, Callback (Some (EngineError ''watch failed'')) None]"
  let ?m = "runningCallback example_manager"
  let ?m' = "snd (waitForDone ?m)"
  have r0: "running ?m" and l0: "length (waiting ?m) = 0"
    by (simp_all add: runningCallback_def example_manager_def)
  have r1: "running ?m'" and l1: "length (waiting ?m') = 1"
    by (simp_all add: waitForDone_def runningCallback_def example_manager_def)
  have rs: "record_status None (Some ?st) = Built ?st"
    by (simp add: record_status_def)
  have nc1: "\<forall>e \<in> set [WaitForDone]. \<not> is_callback e"
   and nc0: "\<forall>e \<in> set []. \<not> is_callback e"
    by simp_all
  note T0 = waiters_settled_together [OF r0, of example_host, THEN conjunct2, THEN conjunct1,
      THEN spec, of "[WaitForDone]", THEN mp, OF nc1, THEN conjunct2, rule_format]
  note T1 = waiters_settled_together [OF r1, of example_host, THEN conjunct2, THEN conjunct1,
      THEN spec, of "[]", THEN mp, OF nc0, THEN conjunct2, rule_format]
  have a: "waiting (run example_host
             (WaitForDone # [WaitForDone] @ Callback None (Some ?st) # ?es2) ?m)
             ! length (waiting ?m)
           = (case record_status None (Some ?st) of
                Built s \<Rightarrow> Resolved s | Failed e \<Rightarrow> Rejected e)"
    by (rule T0)
  have b: "waiting (run example_host
             (WaitForDone # [] @ Callback None (Some ?st) # ?es2) ?m')
             ! length (waiting ?m')
           = (case record_status None (Some ?st) of
                Built s \<Rightarrow> Resolved s | Failed e \<Rightarrow> Rejected e)"
    by (rule T1)
  have c: "run example_host (WaitForDone # WaitForDone # Callback None (Some ?st) # ?es2) ?m
           = run example_host (WaitForDone # Callback None (Some ?st) # ?es2) ?m'"
    by (simp add: run_Cons)
  from a b show ?thesis
    by (simp add: l0 l1 rs c)
qed

subsection \<open>From the wait to the rest of the call\<close>

text \<open>
  The small project's API is the one its configuration constructs, and the three
  segments of a call fit together: a wait that is not running has its outcome at once, a
  wait that is running has it after the next watch callback, and a rejected wait ends
  the call with the same error.
\<close>

lemma example_api_constructed:
  "ty \<noteq> [] \<Longrightarrow> createWebpackAPI example_host (example_options ty) = Inr (example_api ty)"
  by (simp add: createWebpackAPI_def createManager_def example_options_def example_api_def
      example_manager_def example_host_fields has_contenthash_def startsWith_def Let_def)

lemma awaited_not_running:
  "\<not> running m \<Longrightarrow> awaited_outcome (fst (waitForDone m)) k \<noteq> None"
  by (simp add: waitForDone_def split: option.splits status.splits)

lemma awaited_after_callback:
  "running m \<Longrightarrow>
     awaited_outcome (fst (waitForDone m)) (watch_callback err st (snd (waitForDone m)))
       = Some (case record_status err st of Built s \<Rightarrow> Inr s | Failed e \<Rightarrow> Inl e)"
  by (simp add: waitForDone_running watch_callback_waiting settle_Pending nth_append
      split: status.splits)

lemma ssrLoadModule_finish_rejected:
  "ssrLoadModule_finish P filename (Inl e) a hs = (Inl e, a, hs)"
  by (simp add: ssrLoadModule_finish_def)

end
